theory Spec2Isabelle
  imports Complex_Main
begin

section \<open>Number model\<close>

text \<open>
  The program computes with Go's \<open>float64\<close> and \<open>int\<close>.

  \<^item> A \<open>float64\<close> is modelled by the real number it denotes, and \<open>+\<close>, \<open>-\<close>,
    \<open>*\<close>, \<open>/\<close> and the comparisons are those of \<^typ>\<open>real\<close>. Rounding, the
    infinities and NaN are outside this model. A division whose divisor can be
    zero is written out case by case where the source performs it, because
    \<open>x / 0 = 0\<close> in HOL while IEEE-754 gives an infinity or NaN.
  \<^item> An \<open>int\<close> is a 64-bit two's complement integer (the program is built for
    64-bit Linux). It is modelled by \<^typ>\<open>int\<close>, with the wrap-around written
    out by \<open>wrap64\<close> at every addition that can leave the range.
\<close>

definition MaxInt64 :: int where
  "MaxInt64 = 9223372036854775807"

definition wrap64 :: "int \<Rightarrow> int" where
  "wrap64 x = (x + 9223372036854775808) mod 18446744073709551616 - 9223372036854775808"

text \<open>A point in time (\<open>time.Time\<close>), as a count of clock ticks.\<close>

type_synonym time = int

text \<open>
  What a Go function that returns \<open>(T, error)\<close> or panics can end with besides
  its value: the error built by \<open>errors.New\<close>, or a run-time panic.
\<close>

datatype go_error = Error string | Panic string

section \<open>Data model (package model)\<close>

record OHLCV =
  Time :: time
  Open :: real
  High :: real
  Low :: real
  Close :: real
  Volume :: real

record MarketIndicators =
  CurrentPrice :: real
  MA200 :: real
  MA20w :: real
  MA50w :: real
  WeeklyRSI :: real
  DailyRSI :: real
  High52w :: real
  Low52w :: real
  High30d :: real
  Low30d :: real
  Position52w :: real

record FactorScore =
  Name :: string
  RawScore :: real
  Weight :: real
  Weighted :: real
  Commentary :: string

record InvestmentTier =
  Label :: string
  Multiplier :: real
  UseReserve :: real

text \<open>\<open>TriggerType\<close> is a string type with six named constants.\<close>

type_synonym TriggerType = string

definition TriggerWeekly :: TriggerType where
  "TriggerWeekly = ''WEEKLY''"

definition TriggerBottomFish :: TriggerType where
  "TriggerBottomFish = ''BOTTOM_FISH''"

definition TriggerTakeProfit :: TriggerType where
  "TriggerTakeProfit = ''TAKE_PROFIT''"

definition TriggerMonthly :: TriggerType where
  "TriggerMonthly = ''MONTHLY''"

definition TriggerQuarterly :: TriggerType where
  "TriggerQuarterly = ''QUARTERLY''"

definition TriggerManual :: TriggerType where
  "TriggerManual = ''MANUAL''"

record TradeSignal =
  Factors :: "FactorScore list"
  TotalScore :: real
  Tier :: InvestmentTier
  BaseAmount :: real
  FinalAmount :: real
  ReserveUsed :: real
  TriggerType :: TriggerType
  WarningMsg :: string

text \<open>
  A slice is a view of an array: the array it points into and where, its length
  and its capacity. Copying a struct that holds a slice copies this header, not
  the array.
\<close>

record slice =
  s_array :: nat
  s_off :: nat
  s_len :: nat
  s_cap :: nat

record FundState =
  MonthlyBudget :: real
  WeeklyBaseN :: real
  RegularBalance :: real
  ReserveBalance :: real
  BottomFishUsedThisWeek :: bool
  ConsecutiveHighScoreWeeks :: int
  RecentScores :: slice
  LastReplenishAt :: time
  LastRebalanceAt :: time
  UpdatedAt :: time

section \<open>Indicator library (package calculator)\<close>

text \<open>
  \<open>extractCloses\<close> allocates a slice of the same length and copies every bar's
  \<open>Close\<close> into it.
\<close>

definition extractCloses :: "OHLCV list \<Rightarrow> real list" where
  "extractCloses bars = map Close bars"

text \<open>
  \<open>Calculate52WeekPosition(current, high, low)\<close>: the equality test comes first,
  then the error, then the clamped quotient. The divisor \<open>high - low\<close> is positive
  where the quotient is taken.
\<close>

definition Calculate52WeekPosition :: "real \<Rightarrow> real \<Rightarrow> real \<Rightarrow> go_error + real" where
  "Calculate52WeekPosition current high low =
     (if high = low then Inr 0.5
      else if high < low then Inl (Error ''high must be >= low'')
      else
        let pos = (current - low) / (high - low);
            pos = (if pos < 0 then 0 else pos);
            pos = (if pos > 1 then 1 else pos)
        in Inr pos)"

text \<open>
  \<open>CalculateRSI\<close>, first loop: \<open>for i := 1; i <= period; i++\<close> adds each change
  \<open>closes[i] - closes[i-1]\<close> to the gains or, negated, to the losses. An index
  outside the slice is a run-time panic. The loop starts at 1 and a slice has at
  most \<open>MaxInt64\<close> elements, so \<open>i + 1\<close> does not wrap where the body has run.
\<close>

function rsi_seed :: "real list \<Rightarrow> int \<Rightarrow> int \<Rightarrow> real \<times> real \<Rightarrow> go_error + real \<times> real" where
  "rsi_seed closes period i (avgGain, avgLoss) =
     (if i \<le> period then
        (if i < 1 \<or> int (length closes) \<le> i then Inl (Panic ''index out of range'')
         else if closes ! nat i - closes ! nat (i - 1) > 0 then
           rsi_seed closes period (i + 1)
             (avgGain + (closes ! nat i - closes ! nat (i - 1)), avgLoss)
         else
           rsi_seed closes period (i + 1)
             (avgGain, avgLoss - (closes ! nat i - closes ! nat (i - 1))))
      else Inr (avgGain, avgLoss))"
  by pat_completeness auto
termination
  by (relation "measure (\<lambda>(closes, period, i, acc). nat (int (length closes) - i))") auto

text \<open>
  Second loop: \<open>for i := period + 1; i < len(closes); i++\<close> applies Wilder's
  smoothing with the gain and the loss of each further change.
\<close>

function rsi_smooth :: "real list \<Rightarrow> int \<Rightarrow> int \<Rightarrow> real \<times> real \<Rightarrow> go_error + real \<times> real" where
  "rsi_smooth closes period i (avgGain, avgLoss) =
     (if i < int (length closes) then
        (if i < 1 then Inl (Panic ''index out of range'')
         else
           rsi_smooth closes period (i + 1)
             ((avgGain * real_of_int (period - 1) +
                 (if closes ! nat i - closes ! nat (i - 1) > 0
                  then closes ! nat i - closes ! nat (i - 1) else 0)) / real_of_int period,
              (avgLoss * real_of_int (period - 1) +
                 (if closes ! nat i - closes ! nat (i - 1) > 0
                  then 0 else - (closes ! nat i - closes ! nat (i - 1)))) / real_of_int period))
      else Inr (avgGain, avgLoss))"
  by pat_completeness auto
termination
  by (relation "measure (\<lambda>(closes, period, i, acc). nat (int (length closes) - i))") auto

text \<open>
  \<open>rsi_averages\<close> is \<open>CalculateRSI\<close> from \<open>extractCloses\<close> to the end of the second
  loop: the smoothed average gain and average loss. \<open>period + 1\<close> is an \<open>int\<close>
  addition and wraps.
\<close>

definition rsi_averages :: "OHLCV list \<Rightarrow> int \<Rightarrow> go_error + real \<times> real" where
  "rsi_averages bars period =
     (let closes = extractCloses bars in
      case rsi_seed closes period 1 (0, 0) of
        Inl e \<Rightarrow> Inl e
      | Inr (avgGain, avgLoss) \<Rightarrow>
          rsi_smooth closes period (wrap64 (period + 1))
            (avgGain / real_of_int period, avgLoss / real_of_int period))"

text \<open>
  \<open>CalculateRSI(bars, period)\<close>: the error for a period that is not positive,
  50 when \<open>len(bars) < period + 1\<close>, and otherwise 100 for a zero average loss or
  the RSI of the two averages.
\<close>

definition CalculateRSI :: "OHLCV list \<Rightarrow> int \<Rightarrow> go_error + real" where
  "CalculateRSI bars period =
     (if period \<le> 0 then Inl (Error ''period must be positive'')
      else if int (length bars) < wrap64 (period + 1) then Inr 50.0
      else
        case rsi_averages bars period of
          Inl e \<Rightarrow> Inl e
        | Inr (avgGain, avgLoss) \<Rightarrow>
            if avgLoss = 0 then Inr 100.0
            else
              let rs = avgGain / avgLoss;
                  rsi = 100.0 - 100.0 / (1.0 + rs)
              in Inr rsi)"

section \<open>Scoring model and tier policy (package strategy)\<close>

subsection \<open>String constants\<close>

text \<open>
  The names, labels and messages of the source are Chinese text. A Go string is
  a byte sequence (UTF-8 here), and so is a \<^typ>\<open>string\<close>: each constant below is
  the byte sequence of the source's literal.
\<close>

text \<open>MA200_name: factor name of the MA200 deviation (code points U+504F U+79BB U+5EA6, as UTF-8 bytes).\<close>

definition MA200_name :: string where
  "MA200_name =
     ''MA200'' @ [CHR 0xE5, CHR 0x81, CHR 0x8F, CHR 0xE7, CHR 0xA6, CHR 0xBB, CHR 0xE5,
     CHR 0xBA, CHR 0xA6]"

text \<open>MA200_unavailable: commentary when MA200 is zero (code points U+4E0D U+53EF U+7528, as UTF-8 bytes).\<close>

definition MA200_unavailable :: string where
  "MA200_unavailable =
     ''MA200'' @ [CHR 0xE4, CHR 0xB8, CHR 0x8D, CHR 0xE5, CHR 0x8F, CHR 0xAF, CHR 0xE7,
     CHR 0x94, CHR 0xA8]"

text \<open>MA200_format: format of the deviation commentary (code points U+504F U+79BB, as UTF-8 bytes).\<close>

definition MA200_format :: string where
  "MA200_format =
     [CHR 0xE5, CHR 0x81, CHR 0x8F, CHR 0xE7, CHR 0xA6, CHR 0xBB] @ '' %+.1f%%''"

text \<open>WeeklyRSI_name: factor name of the weekly RSI (code points U+5468 U+7EBF, as UTF-8 bytes).\<close>

definition WeeklyRSI_name :: string where
  "WeeklyRSI_name =
     [CHR 0xE5, CHR 0x91, CHR 0xA8, CHR 0xE7, CHR 0xBA, CHR 0xBF] @ ''RSI''"

text \<open>DailyRSI_name: factor name of the daily RSI (code points U+65E5 U+7EBF, as UTF-8 bytes).\<close>

definition DailyRSI_name :: string where
  "DailyRSI_name =
     [CHR 0xE6, CHR 0x97, CHR 0xA5, CHR 0xE7, CHR 0xBA, CHR 0xBF] @ ''RSI''"

text \<open>RSI_format: format of both RSI commentaries.\<close>

definition RSI_format :: string where
  "RSI_format =
     ''RSI=%.0f''"

text \<open>Position_name: factor name of the 52-week position (code points U+5468 U+4F4D U+7F6E, as UTF-8 bytes).\<close>

definition Position_name :: string where
  "Position_name =
     ''52'' @ [CHR 0xE5, CHR 0x91, CHR 0xA8, CHR 0xE4, CHR 0xBD, CHR 0x8D, CHR 0xE7, CHR
     0xBD, CHR 0xAE]"

text \<open>Position_format: format of the position commentary (code points U+4F4D U+7F6E, as UTF-8 bytes).\<close>

definition Position_format :: string where
  "Position_format =
     [CHR 0xE4, CHR 0xBD, CHR 0x8D, CHR 0xE7, CHR 0xBD, CHR 0xAE] @ ''=%.0f%%''"

text \<open>Trend_name: factor name of the trend tracker (code points U+8D8B U+52BF U+8FFD U+8E2A, as UTF-8 bytes).\<close>

definition Trend_name :: string where
  "Trend_name =
     [CHR 0xE8, CHR 0xB6, CHR 0x8B, CHR 0xE5, CHR 0x8A, CHR 0xBF, CHR 0xE8, CHR 0xBF,
     CHR 0xBD, CHR 0xE8, CHR 0xB8, CHR 0xAA]"

text \<open>Trend_bull_high: bullish alignment and 30-day high (code points U+591A U+5934 U+6392 U+5217 U+65E5 U+65B0 U+9AD8, as UTF-8 bytes).\<close>

definition Trend_bull_high :: string where
  "Trend_bull_high =
     [CHR 0xE5, CHR 0xA4, CHR 0x9A, CHR 0xE5, CHR 0xA4, CHR 0xB4, CHR 0xE6, CHR 0x8E,
     CHR 0x92, CHR 0xE5, CHR 0x88, CHR 0x97] @ ''+30'' @ [CHR 0xE6, CHR 0x97, CHR 0xA5,
     CHR 0xE6, CHR 0x96, CHR 0xB0, CHR 0xE9, CHR 0xAB, CHR 0x98]"

text \<open>Trend_bull: bullish alignment (code points U+591A U+5934 U+6392 U+5217, as UTF-8 bytes).\<close>

definition Trend_bull :: string where
  "Trend_bull =
     [CHR 0xE5, CHR 0xA4, CHR 0x9A, CHR 0xE5, CHR 0xA4, CHR 0xB4, CHR 0xE6, CHR 0x8E,
     CHR 0x92, CHR 0xE5, CHR 0x88, CHR 0x97]"

text \<open>Trend_bear_low: bearish alignment and 30-day low (code points U+7A7A U+5934 U+6392 U+5217 U+65E5 U+65B0 U+4F4E, as UTF-8 bytes).\<close>

definition Trend_bear_low :: string where
  "Trend_bear_low =
     [CHR 0xE7, CHR 0xA9, CHR 0xBA, CHR 0xE5, CHR 0xA4, CHR 0xB4, CHR 0xE6, CHR 0x8E,
     CHR 0x92, CHR 0xE5, CHR 0x88, CHR 0x97] @ ''+30'' @ [CHR 0xE6, CHR 0x97, CHR 0xA5,
     CHR 0xE6, CHR 0x96, CHR 0xB0, CHR 0xE4, CHR 0xBD, CHR 0x8E]"

text \<open>Trend_bear: bearish alignment (code points U+7A7A U+5934 U+6392 U+5217, as UTF-8 bytes).\<close>

definition Trend_bear :: string where
  "Trend_bear =
     [CHR 0xE7, CHR 0xA9, CHR 0xBA, CHR 0xE5, CHR 0xA4, CHR 0xB4, CHR 0xE6, CHR 0x8E,
     CHR 0x92, CHR 0xE5, CHR 0x88, CHR 0x97]"

text \<open>Trend_none: no alignment (code points U+9707 U+8361, as UTF-8 bytes).\<close>

definition Trend_none :: string where
  "Trend_none =
     [CHR 0xE9, CHR 0x9C, CHR 0x87, CHR 0xE8, CHR 0x8D, CHR 0xA1]"

text \<open>Label_extreme_heavy: label of the tier from 1.5 (code points U+6781 U+9650 U+91CD U+4ED3, as UTF-8 bytes).\<close>

definition Label_extreme_heavy :: string where
  "Label_extreme_heavy =
     [CHR 0xE6, CHR 0x9E, CHR 0x81, CHR 0xE9, CHR 0x99, CHR 0x90, CHR 0xE9, CHR 0x87,
     CHR 0x8D, CHR 0xE4, CHR 0xBB, CHR 0x93]"

text \<open>Label_heavy: label of the tier from 1.2 (code points U+91CD U+4ED3 U+4E70 U+5165, as UTF-8 bytes).\<close>

definition Label_heavy :: string where
  "Label_heavy =
     [CHR 0xE9, CHR 0x87, CHR 0x8D, CHR 0xE4, CHR 0xBB, CHR 0x93, CHR 0xE4, CHR 0xB9,
     CHR 0xB0, CHR 0xE5, CHR 0x85, CHR 0xA5]"

text \<open>Label_add: label of the tier from 0.8 (code points U+52A0 U+4ED3 U+4E70 U+5165, as UTF-8 bytes).\<close>

definition Label_add :: string where
  "Label_add =
     [CHR 0xE5, CHR 0x8A, CHR 0xA0, CHR 0xE4, CHR 0xBB, CHR 0x93, CHR 0xE4, CHR 0xB9,
     CHR 0xB0, CHR 0xE5, CHR 0x85, CHR 0xA5]"

text \<open>Label_normal: label of the tier from 0.0 (code points U+6B63 U+5E38 U+5B9A U+6295, as UTF-8 bytes).\<close>

definition Label_normal :: string where
  "Label_normal =
     [CHR 0xE6, CHR 0xAD, CHR 0xA3, CHR 0xE5, CHR 0xB8, CHR 0xB8, CHR 0xE5, CHR 0xAE,
     CHR 0x9A, CHR 0xE6, CHR 0x8A, CHR 0x95]"

text \<open>Label_reduced: label of the tier from -0.8 (code points U+7F29 U+51CF U+5B9A U+6295, as UTF-8 bytes).\<close>

definition Label_reduced :: string where
  "Label_reduced =
     [CHR 0xE7, CHR 0xBC, CHR 0xA9, CHR 0xE5, CHR 0x87, CHR 0x8F, CHR 0xE5, CHR 0xAE,
     CHR 0x9A, CHR 0xE6, CHR 0x8A, CHR 0x95]"

text \<open>Label_light_watch: label of the tier from -1.5 (code points U+8F7B U+4ED3 U+89C2 U+671B, as UTF-8 bytes).\<close>

definition Label_light_watch :: string where
  "Label_light_watch =
     [CHR 0xE8, CHR 0xBD, CHR 0xBB, CHR 0xE4, CHR 0xBB, CHR 0x93, CHR 0xE8, CHR 0xA7,
     CHR 0x82, CHR 0xE6, CHR 0x9C, CHR 0x9B]"

text \<open>Label_minimum: label of DefaultTier (code points U+6700 U+4F4E U+53C2 U+4E0E, as UTF-8 bytes).\<close>

definition Label_minimum :: string where
  "Label_minimum =
     [CHR 0xE6, CHR 0x9C, CHR 0x80, CHR 0xE4, CHR 0xBD, CHR 0x8E, CHR 0xE5, CHR 0x8F,
     CHR 0x82, CHR 0xE4, CHR 0xB8, CHR 0x8E]"

text \<open>TakeProfit_warning: the take-profit warning (code points U+26A0 U+FE0F U+6B62 U+76C8 U+9884 U+8B66 U+FF1A U+5EFA U+8BAE U+8003 U+8651 U+90E8 U+5206 U+6B62 U+76C8, as UTF-8 bytes).\<close>

definition TakeProfit_warning :: string where
  "TakeProfit_warning =
     [CHR 0xE2, CHR 0x9A, CHR 0xA0, CHR 0xEF, CHR 0xB8, CHR 0x8F] @ '' RSI > 85 '' @
     [CHR 0xE6, CHR 0xAD, CHR 0xA2, CHR 0xE7, CHR 0x9B, CHR 0x88, CHR 0xE9, CHR 0xA2,
     CHR 0x84, CHR 0xE8, CHR 0xAD, CHR 0xA6, CHR 0xEF, CHR 0xBC, CHR 0x9A, CHR 0xE5, CHR
     0xBB, CHR 0xBA, CHR 0xE8, CHR 0xAE, CHR 0xAE, CHR 0xE8, CHR 0x80, CHR 0x83, CHR
     0xE8, CHR 0x99, CHR 0x91, CHR 0xE9, CHR 0x83, CHR 0xA8, CHR 0xE5, CHR 0x88, CHR
     0x86, CHR 0xE6, CHR 0xAD, CHR 0xA2, CHR 0xE7, CHR 0x9B, CHR 0x88]"

subsection \<open>The five factor scorers\<close>

text \<open>
  The commentary of a factor is built by \<open>fmt.Sprintf\<close> from a format and one
  \<open>float64\<close>. The formatter belongs to Go's library; the scorers take it as the
  parameter \<open>sprintf\<close>.
\<close>

type_synonym formatter = "string \<Rightarrow> real \<Rightarrow> string"

text \<open>
  \<open>scoreMA200Deviation\<close>, weight 0.35. The guard on \<open>MA200 = 0\<close> comes before the
  division.
\<close>

definition scoreMA200Deviation :: "formatter \<Rightarrow> MarketIndicators \<Rightarrow> FactorScore" where
  "scoreMA200Deviation sprintf ind =
     (if MA200 ind = 0 then
        \<lparr>Name = MA200_name, RawScore = 0, Weight = 0.35, Weighted = 0,
         Commentary = MA200_unavailable\<rparr>
      else
        let deviation = (CurrentPrice ind - MA200 ind) / MA200 ind * 100;
            score =
              (if deviation \<le> -20 then 2.0
               else if deviation \<le> -10 then 1.5
               else if deviation \<le> -5 then 1.0
               else if deviation \<le> 0 then 0.5
               else if deviation \<le> 5 then 0
               else if deviation \<le> 10 then -0.5
               else if deviation \<le> 15 then -1.0
               else if deviation \<le> 20 then -1.5
               else -2.0)
        in \<lparr>Name = MA200_name, RawScore = score, Weight = 0.35, Weighted = score * 0.35,
            Commentary = sprintf MA200_format deviation\<rparr>)"

text \<open>\<open>scoreWeeklyRSI\<close>, weight 0.25.\<close>

definition scoreWeeklyRSI :: "formatter \<Rightarrow> MarketIndicators \<Rightarrow> FactorScore" where
  "scoreWeeklyRSI sprintf ind =
     (let rsi = WeeklyRSI ind;
          score =
            (if rsi \<le> 25 then 2.0
             else if rsi \<le> 30 then 1.5
             else if rsi \<le> 40 then 1.0
             else if rsi \<le> 45 then 0.5
             else if rsi \<le> 55 then 0
             else if rsi \<le> 60 then -0.5
             else if rsi \<le> 70 then -1.0
             else if rsi \<le> 80 then -1.5
             else -2.0)
      in \<lparr>Name = WeeklyRSI_name, RawScore = score, Weight = 0.25, Weighted = score * 0.25,
          Commentary = sprintf RSI_format rsi\<rparr>)"

text \<open>\<open>scoreDailyRSI\<close>, weight 0.15.\<close>

definition scoreDailyRSI :: "formatter \<Rightarrow> MarketIndicators \<Rightarrow> FactorScore" where
  "scoreDailyRSI sprintf ind =
     (let rsi = DailyRSI ind;
          score =
            (if rsi \<le> 25 then 2.0
             else if rsi \<le> 30 then 1.5
             else if rsi \<le> 40 then 1.0
             else if rsi \<le> 45 then 0.5
             else if rsi \<le> 55 then 0
             else if rsi \<le> 60 then -0.5
             else if rsi \<le> 70 then -1.0
             else if rsi \<le> 80 then -1.5
             else -2.0)
      in \<lparr>Name = DailyRSI_name, RawScore = score, Weight = 0.15, Weighted = score * 0.15,
          Commentary = sprintf RSI_format rsi\<rparr>)"

text \<open>
  \<open>score52WeekPosition\<close>, weight 0.10. Above 95 percent the score depends on
  \<open>otherFactorsAvg\<close>.
\<close>

definition score52WeekPosition :: "formatter \<Rightarrow> MarketIndicators \<Rightarrow> real \<Rightarrow> FactorScore" where
  "score52WeekPosition sprintf ind otherFactorsAvg =
     (let pos = Position52w ind * 100;
          score =
            (if pos \<le> 10 then 2.0
             else if pos \<le> 20 then 1.5
             else if pos \<le> 30 then 1.0
             else if pos \<le> 40 then 0.5
             else if pos \<le> 60 then 0
             else if pos \<le> 70 then -0.5
             else if pos \<le> 80 then -1.0
             else if pos \<le> 95 then -1.5
             else if otherFactorsAvg < -1 then -2.0
             else -1.0)
      in \<lparr>Name = Position_name, RawScore = score, Weight = 0.10, Weighted = score * 0.10,
          Commentary = sprintf Position_format pos\<rparr>)"

text \<open>
  \<open>scoreTrendTracker\<close>, weight 0.15. The source divides by \<open>High30d\<close> and by
  \<open>Low30d\<close> with no guard: for a zero divisor the \<open>float64\<close> quotient is an
  infinity or NaN and the comparison \<open>< 0.01\<close> is false, which the model writes
  out.
\<close>

definition scoreTrendTracker :: "MarketIndicators \<Rightarrow> FactorScore" where
  "scoreTrendTracker ind =
     (let bullish = (CurrentPrice ind > MA20w ind \<and> MA20w ind > MA50w ind);
          bearish = (CurrentPrice ind < MA20w ind \<and> MA20w ind < MA50w ind);
          near30dHigh =
            (High30d ind \<noteq> 0 \<and> \<bar>CurrentPrice ind - High30d ind\<bar> / High30d ind < 0.01);
          near30dLow =
            (Low30d ind \<noteq> 0 \<and> \<bar>CurrentPrice ind - Low30d ind\<bar> / Low30d ind < 0.01);
          (score, commentary) =
            (if bullish \<and> near30dHigh then (1.5, Trend_bull_high)
             else if bullish then (1.0, Trend_bull)
             else if bearish \<and> near30dLow then (-1.0, Trend_bear_low)
             else if bearish then (-0.5, Trend_bear)
             else (0, Trend_none))
      in \<lparr>Name = Trend_name, RawScore = score, Weight = 0.15, Weighted = score * 0.15,
          Commentary = commentary\<rparr>)"

subsection \<open>Tier policy\<close>

text \<open>
  \<open>Tiers\<close> is a slice of anonymous structs \<open>{MinScore, Tier}\<close>, here pairs, in the
  order of the source.
\<close>

definition Tiers :: "(real \<times> InvestmentTier) list" where
  "Tiers =
     [(1.5, \<lparr>Label = Label_extreme_heavy, Multiplier = 1.0, UseReserve = 1.5\<rparr>),
      (1.2, \<lparr>Label = Label_heavy, Multiplier = 1.0, UseReserve = 1.0\<rparr>),
      (0.8, \<lparr>Label = Label_add, Multiplier = 1.0, UseReserve = 0.5\<rparr>),
      (0.0, \<lparr>Label = Label_normal, Multiplier = 1.0, UseReserve = 0\<rparr>),
      (-0.8, \<lparr>Label = Label_reduced, Multiplier = 0.5, UseReserve = 0\<rparr>),
      (-1.5, \<lparr>Label = Label_light_watch, Multiplier = 0.25, UseReserve = 0\<rparr>)]"

definition DefaultTier :: InvestmentTier where
  "DefaultTier = \<lparr>Label = Label_minimum, Multiplier = 0.15, UseReserve = 0\<rparr>"

text \<open>
  \<open>mapTier\<close> ranges over \<open>Tiers\<close> and returns at the first entry whose \<open>MinScore\<close>
  the score reaches; after the loop it returns \<open>DefaultTier\<close>. \<open>firstTier\<close> is the
  loop over the rest of the table.
\<close>

fun firstTier :: "(real \<times> InvestmentTier) list \<Rightarrow> real \<Rightarrow> InvestmentTier" where
  "firstTier [] totalScore = DefaultTier"
| "firstTier ((minScore, tier) # ts) totalScore =
     (if totalScore \<ge> minScore then tier else firstTier ts totalScore)"

definition mapTier :: "real \<Rightarrow> InvestmentTier" where
  "mapTier totalScore = firstTier Tiers totalScore"

subsection \<open>Evaluate\<close>

text \<open>
  \<open>Evaluate\<close> scores factors 1, 2, 3 and 5, averages their raw scores, scores
  factor 4 with that average, sums the five weighted scores from left to right,
  maps the sum to a tier and attaches the warning when an RSI is above 85. The
  amounts of the new signal are Go's zero values.
\<close>

definition Evaluate :: "formatter \<Rightarrow> MarketIndicators \<Rightarrow> TradeSignal" where
  "Evaluate sprintf ind =
     (let f1 = scoreMA200Deviation sprintf ind;
          f2 = scoreWeeklyRSI sprintf ind;
          f3 = scoreDailyRSI sprintf ind;
          f5 = scoreTrendTracker ind;
          otherFactorsAvg = (RawScore f1 + RawScore f2 + RawScore f3 + RawScore f5) / 4.0;
          f4 = score52WeekPosition sprintf ind otherFactorsAvg;
          factors = [f1, f2, f3, f4, f5];
          totalScore = Weighted f1 + Weighted f2 + Weighted f3 + Weighted f4 + Weighted f5;
          tier = mapTier totalScore;
          signal = \<lparr>Factors = factors, TotalScore = totalScore, Tier = tier,
                    BaseAmount = 0, FinalAmount = 0, ReserveUsed = 0,
                    TriggerType = TriggerWeekly, WarningMsg = []\<rparr>
      in if WeeklyRSI ind > 85 \<or> DailyRSI ind > 85
         then signal\<lparr>WarningMsg := TakeProfit_warning\<rparr>
         else signal)"

section \<open>Fund state machine (package fund)\<close>

subsection \<open>The store of arrays\<close>

text \<open>
  The arrays that slices point into live in a store: \<open>arrays\<close> holds the content of
  each array and \<open>allocated\<close> counts the arrays handed out so far, so the next new
  array is number \<open>allocated\<close>. Only \<open>append\<close> writes to the store.
\<close>

record store =
  arrays :: "nat \<Rightarrow> real list"
  allocated :: nat

text \<open>The elements a slice shows: \<open>s[0], ..., s[len(s)-1]\<close>.\<close>

definition elems :: "store \<Rightarrow> slice \<Rightarrow> real list" where
  "elems h s = take (s_len s) (drop (s_off s) (arrays h (s_array s)))"

text \<open>
  \<open>append(s, v)\<close>: with spare capacity the value is written into the array of \<open>s\<close>,
  right after its last element, and the result shares that array. Otherwise a
  new array receives the elements of \<open>s\<close> and then \<open>v\<close>. How much more room the new
  array has is the run-time system's choice, the parameter \<open>grow\<close> (from the old
  capacity to the number of spare elements).
\<close>

definition go_append :: "(nat \<Rightarrow> nat) \<Rightarrow> store \<Rightarrow> slice \<Rightarrow> real \<Rightarrow> store \<times> slice" where
  "go_append grow h s v =
     (if s_len s < s_cap s then
        (h\<lparr>arrays := (arrays h)
              (s_array s := (arrays h (s_array s))[s_off s + s_len s := v])\<rparr>,
         s\<lparr>s_len := s_len s + 1\<rparr>)
      else
        (h\<lparr>arrays := (arrays h)
              (allocated h := elems h s @ [v] @ replicate (grow (s_cap s)) 0),
            allocated := allocated h + 1\<rparr>,
         \<lparr>s_array = allocated h, s_off = 0, s_len = s_len s + 1,
          s_cap = s_len s + 1 + grow (s_cap s)\<rparr>))"

text \<open>\<open>s[n:]\<close>, for \<open>n\<close> up to \<open>len(s)\<close>: the same array, \<open>n\<close> elements further on.\<close>

definition reslice_from :: "slice \<Rightarrow> nat \<Rightarrow> slice" where
  "reslice_from s n = s\<lparr>s_off := s_off s + n, s_len := s_len s - n, s_cap := s_cap s - n\<rparr>"

subsection \<open>The manager\<close>

text \<open>
  A \<open>Manager\<close> owns one \<open>FundState\<close> through a pointer and the path of the state
  file. Its mutex makes every method run alone from start to end, so a method is
  a function from the manager and the store before the call to those after it.
  \<open>heap\<close> is the store the manager's slice points into.
\<close>

record Manager =
  state :: FundState
  filePath :: string
  heap :: store

text \<open>
  \<open>save\<close> calls \<open>SaveState\<close>, which stamps \<open>UpdatedAt\<close> with the current time and
  writes the state to the file. The file is not read again by any method and a
  failed write is only logged, so what remains is the stamp. \<open>now\<close> is the clock at
  the call.
\<close>

definition save :: "time \<Rightarrow> Manager \<Rightarrow> Manager" where
  "save now m = m\<lparr>state := (state m)\<lparr>UpdatedAt := now\<rparr>\<rparr>"

text \<open>\<open>GetState\<close> returns \<open>*m.state\<close>, a copy of the struct.\<close>

definition GetState :: "Manager \<Rightarrow> FundState" where
  "GetState m = state m"

text \<open>\<open>CalculateWeeklyInvestment(signal)\<close> returns \<open>(finalAmount, reserveUsed)\<close>.\<close>

definition CalculateWeeklyInvestment ::
    "(nat \<Rightarrow> nat) \<Rightarrow> time \<Rightarrow> TradeSignal \<Rightarrow> Manager \<Rightarrow> Manager \<times> real \<times> real" where
  "CalculateWeeklyInvestment grow now signal m =
     (let baseN = WeeklyBaseN (state m);
          regularAmount = baseN * Multiplier (Tier signal);
          reserveAmount = baseN * UseReserve (Tier signal);
          regularAmount =
            (if regularAmount > RegularBalance (state m) then RegularBalance (state m)
             else regularAmount);
          reserveAmount =
            (if reserveAmount > ReserveBalance (state m) then ReserveBalance (state m)
             else reserveAmount);
          m = m\<lparr>state := (state m)\<lparr>RegularBalance := RegularBalance (state m) - regularAmount\<rparr>\<rparr>;
          m = m\<lparr>state := (state m)\<lparr>ReserveBalance := ReserveBalance (state m) - reserveAmount\<rparr>\<rparr>;
          (h, scores) = go_append grow (heap m) (RecentScores (state m)) (TotalScore signal);
          m = m\<lparr>state := (state m)\<lparr>RecentScores := scores\<rparr>, heap := h\<rparr>;
          m = (if s_len (RecentScores (state m)) > 12 then
                 m\<lparr>state := (state m)\<lparr>RecentScores :=
                   reslice_from (RecentScores (state m)) (s_len (RecentScores (state m)) - 12)\<rparr>\<rparr>
               else m);
          m = (if TotalScore signal > 1.0 then
                 m\<lparr>state := (state m)\<lparr>ConsecutiveHighScoreWeeks :=
                   wrap64 (ConsecutiveHighScoreWeeks (state m) + 1)\<rparr>\<rparr>
               else m\<lparr>state := (state m)\<lparr>ConsecutiveHighScoreWeeks := 0\<rparr>\<rparr>);
          m = save now m
      in (m, regularAmount + reserveAmount, reserveAmount))"

text \<open>\<open>CalculateBottomFishInvestment(totalScore)\<close> returns \<open>(amount, triggered)\<close>.\<close>

definition CalculateBottomFishInvestment :: "time \<Rightarrow> real \<Rightarrow> Manager \<Rightarrow> Manager \<times> real \<times> bool" where
  "CalculateBottomFishInvestment now totalScore m =
     (if BottomFishUsedThisWeek (state m) then (m, 0, False)
      else
        let baseN = WeeklyBaseN (state m);
            multiplier =
              (if totalScore > 1.0 then 1.5
               else if totalScore > 0 then 1.0
               else if totalScore < -0.5 then 0.5
               else 0.75);
            amount = baseN * multiplier;
            amount = (if amount > ReserveBalance (state m) then ReserveBalance (state m) else amount);
            m = m\<lparr>state := (state m)\<lparr>ReserveBalance := ReserveBalance (state m) - amount\<rparr>\<rparr>;
            m = m\<lparr>state := (state m)\<lparr>BottomFishUsedThisWeek := True\<rparr>\<rparr>;
            m = save now m
        in (m, amount, True))"

text \<open>\<open>MonthlyReplenish()\<close>.\<close>

definition MonthlyReplenish :: "time \<Rightarrow> Manager \<Rightarrow> Manager" where
  "MonthlyReplenish now m =
     (let m = m\<lparr>state := (state m)\<lparr>RegularBalance :=
                RegularBalance (state m) + MonthlyBudget (state m) * 0.70\<rparr>\<rparr>;
          m = m\<lparr>state := (state m)\<lparr>ReserveBalance :=
                ReserveBalance (state m) + MonthlyBudget (state m) * 0.30\<rparr>\<rparr>
      in save now m)"

text \<open>Msg_excess: reserve above 6N, moved back to regular (code points U+50A8 U+5907 U+6C60 U+8D85 U+989D U+FF0C U+5DF2 U+8F6C U+56DE U+5E38 U+89C4 U+6C60, as UTF-8 bytes).\<close>

definition Msg_excess :: string where
  "Msg_excess =
     [CHR 0xE5, CHR 0x82, CHR 0xA8, CHR 0xE5, CHR 0xA4, CHR 0x87, CHR 0xE6, CHR 0xB1,
     CHR 0xA0, CHR 0xE8, CHR 0xB6, CHR 0x85, CHR 0xE9, CHR 0xA2, CHR 0x9D, CHR 0xEF, CHR
     0xBC, CHR 0x8C, CHR 0xE5, CHR 0xB7, CHR 0xB2, CHR 0xE8, CHR 0xBD, CHR 0xAC, CHR
     0xE5, CHR 0x9B, CHR 0x9E, CHR 0xE5, CHR 0xB8, CHR 0xB8, CHR 0xE8, CHR 0xA7, CHR
     0x84, CHR 0xE6, CHR 0xB1, CHR 0xA0]"

text \<open>Msg_topup: high-score streak and low reserve, emergency top-up (code points U+8FDE U+7EED U+9AD8 U+5206 U+50A8 U+5907 U+4E0D U+8DB3 U+FF0C U+7D27 U+6025 U+8865 U+5145 U+50A8 U+5907 U+6C60, as UTF-8 bytes).\<close>

definition Msg_topup :: string where
  "Msg_topup =
     [CHR 0xE8, CHR 0xBF, CHR 0x9E, CHR 0xE7, CHR 0xBB, CHR 0xAD, CHR 0xE9, CHR 0xAB,
     CHR 0x98, CHR 0xE5, CHR 0x88, CHR 0x86] @ ''+'' @ [CHR 0xE5, CHR 0x82, CHR 0xA8,
     CHR 0xE5, CHR 0xA4, CHR 0x87, CHR 0xE4, CHR 0xB8, CHR 0x8D, CHR 0xE8, CHR 0xB6, CHR
     0xB3, CHR 0xEF, CHR 0xBC, CHR 0x8C, CHR 0xE7, CHR 0xB4, CHR 0xA7, CHR 0xE6, CHR
     0x80, CHR 0xA5, CHR 0xE8, CHR 0xA1, CHR 0xA5, CHR 0xE5, CHR 0x85, CHR 0x85, CHR
     0xE5, CHR 0x82, CHR 0xA8, CHR 0xE5, CHR 0xA4, CHR 0x87, CHR 0xE6, CHR 0xB1, CHR
     0xA0]"

text \<open>Msg_no_change: quarterly rebalance, nothing to adjust (code points U+5B63 U+5EA6 U+518D U+5E73 U+8861 U+FF1A U+65E0 U+9700 U+8C03 U+6574, as UTF-8 bytes).\<close>

definition Msg_no_change :: string where
  "Msg_no_change =
     [CHR 0xE5, CHR 0xAD, CHR 0xA3, CHR 0xE5, CHR 0xBA, CHR 0xA6, CHR 0xE5, CHR 0x86,
     CHR 0x8D, CHR 0xE5, CHR 0xB9, CHR 0xB3, CHR 0xE8, CHR 0xA1, CHR 0xA1, CHR 0xEF, CHR
     0xBC, CHR 0x9A, CHR 0xE6, CHR 0x97, CHR 0xA0, CHR 0xE9, CHR 0x9C, CHR 0x80, CHR
     0xE8, CHR 0xB0, CHR 0x83, CHR 0xE6, CHR 0x95, CHR 0xB4]"

text \<open>\<open>QuarterlyRebalance()\<close> returns the message of the branch it took.\<close>

definition QuarterlyRebalance :: "time \<Rightarrow> Manager \<Rightarrow> Manager \<times> string" where
  "QuarterlyRebalance now m =
     (let baseN = WeeklyBaseN (state m) in
      if ReserveBalance (state m) > 6 * baseN then
        let excess = ReserveBalance (state m) - 6 * baseN;
            m = m\<lparr>state := (state m)\<lparr>ReserveBalance := ReserveBalance (state m) - excess\<rparr>\<rparr>;
            m = m\<lparr>state := (state m)\<lparr>RegularBalance := RegularBalance (state m) + excess\<rparr>\<rparr>
        in (save now m, Msg_excess)
      else if ConsecutiveHighScoreWeeks (state m) \<ge> 4 \<and> ReserveBalance (state m) < 3 * baseN then
        let topUp = 3 * baseN - ReserveBalance (state m);
            m = m\<lparr>state := (state m)\<lparr>ReserveBalance := ReserveBalance (state m) + topUp\<rparr>\<rparr>
        in (save now m, Msg_topup)
      else (save now m, Msg_no_change))"

text \<open>\<open>ResetWeeklyFlags()\<close>.\<close>

definition ResetWeeklyFlags :: "time \<Rightarrow> Manager \<Rightarrow> Manager" where
  "ResetWeeklyFlags now m =
     save now (m\<lparr>state := (state m)\<lparr>BottomFishUsedThisWeek := False\<rparr>\<rparr>)"

subsection \<open>Sequences of calls\<close>

text \<open>
  The callers of the manager (the scheduler's tasks and the command handler)
  call its methods one at a time. A call is the method with its arguments, a
  reply is what the method returns.
\<close>

datatype call =
    Weekly TradeSignal
  | BottomFish real
  | Monthly
  | Quarterly
  | ResetFlags
  | Get

datatype reply =
    WeeklyReply real real
  | BottomFishReply real bool
  | MessageReply string
  | StateReply FundState
  | NoReply

fun do_call :: "(nat \<Rightarrow> nat) \<Rightarrow> time \<times> call \<Rightarrow> Manager \<Rightarrow> Manager \<times> reply" where
  "do_call grow (now, Weekly signal) m =
     (case CalculateWeeklyInvestment grow now signal m of
        (m', finalAmount, reserveUsed) \<Rightarrow> (m', WeeklyReply finalAmount reserveUsed))"
| "do_call grow (now, BottomFish totalScore) m =
     (case CalculateBottomFishInvestment now totalScore m of
        (m', amount, triggered) \<Rightarrow> (m', BottomFishReply amount triggered))"
| "do_call grow (now, Monthly) m = (MonthlyReplenish now m, NoReply)"
| "do_call grow (now, Quarterly) m =
     (case QuarterlyRebalance now m of (m', msg) \<Rightarrow> (m', MessageReply msg))"
| "do_call grow (now, ResetFlags) m = (ResetWeeklyFlags now m, NoReply)"
| "do_call grow (now, Get) m = (m, StateReply (GetState m))"

text \<open>A sequence of calls, each at its own time, with the replies in order.\<close>

fun run_calls :: "(nat \<Rightarrow> nat) \<Rightarrow> (time \<times> call) list \<Rightarrow> Manager \<Rightarrow> Manager \<times> reply list" where
  "run_calls grow [] m = (m, [])"
| "run_calls grow (c # cs) m =
     (case do_call grow c m of
        (m', r) \<Rightarrow> (case run_calls grow cs m' of (m'', rs) \<Rightarrow> (m'', r # rs)))"

section \<open>Notions used to state the properties\<close>

text \<open>Both pool balances of the manager's state are nonnegative.\<close>

definition pools_nonneg :: "Manager \<Rightarrow> bool" where
  "pools_nonneg m \<longleftrightarrow> 0 \<le> RegularBalance (state m) \<and> 0 \<le> ReserveBalance (state m)"

text \<open>A reply of \<open>CalculateBottomFishInvestment\<close> with \<open>triggered = true\<close>.\<close>

definition triggered :: "reply \<Rightarrow> bool" where
  "triggered r = (case r of BottomFishReply amount t \<Rightarrow> t | _ \<Rightarrow> False)"

text \<open>
  A slice is well formed in a store when its length is within its capacity, its
  capacity is within its array, and the array has been allocated. Go's slice
  operations keep every slice well formed.
\<close>

definition wf_slice :: "store \<Rightarrow> slice \<Rightarrow> bool" where
  "wf_slice h s \<longleftrightarrow>
     s_len s \<le> s_cap s \<and> s_off s + s_cap s \<le> length (arrays h (s_array s)) \<and>
     s_array s < allocated h"

text \<open>The manager's window of recent scores is well formed.\<close>

definition wf_manager :: "Manager \<Rightarrow> bool" where
  "wf_manager m \<longleftrightarrow> wf_slice (heap m) (RecentScores (state m))"

text \<open>The recent scores of the manager, oldest first: the elements its slice shows.\<close>

definition window :: "Manager \<Rightarrow> real list" where
  "window m = elems (heap m) (RecentScores (state m))"

text \<open>The 12 most recent entries of a history, oldest first; all of it when there are fewer.\<close>

definition last12 :: "real list \<Rightarrow> real list" where
  "last12 xs = drop (length xs - 12) xs"

text \<open>
  A slice \<open>sn\<close> is behind the slice \<open>cur\<close> when they point into different arrays or
  \<open>sn\<close> ends no later than \<open>cur\<close> does.
\<close>

definition behind :: "slice \<Rightarrow> slice \<Rightarrow> bool" where
  "behind sn cur \<longleftrightarrow>
     s_array sn \<noteq> s_array cur \<or> s_off sn + s_len sn \<le> s_off cur + s_len cur"

text \<open>The total scores of the weekly investments among a sequence of calls, in order.\<close>

fun weekly_scores :: "(time \<times> call) list \<Rightarrow> real list" where
  "weekly_scores [] = []"
| "weekly_scores ((now, Weekly signal) # cs) = TotalScore signal # weekly_scores cs"
| "weekly_scores (c # cs) = weekly_scores cs"

text \<open>
  What a caller can read from a \<open>FundState\<close> value it holds: the fields of the
  struct, and through the slice header the elements of \<open>RecentScores\<close> in the
  store.
\<close>

definition observed ::
    "store \<Rightarrow> FundState \<Rightarrow>
       real \<times> real \<times> real \<times> real \<times> bool \<times> int \<times> real list \<times> time \<times> time \<times> time" where
  "observed h st =
     (MonthlyBudget st, WeeklyBaseN st, RegularBalance st, ReserveBalance st,
      BottomFishUsedThisWeek st, ConsecutiveHighScoreWeeks st, elems h (RecentScores st),
      LastReplenishAt st, LastRebalanceAt st, UpdatedAt st)"

section \<open>Example inputs\<close>

text \<open>A bar that opens, peaks, bottoms and closes at one price.\<close>

definition bar :: "real \<Rightarrow> OHLCV" where
  "bar c = \<lparr>Time = 0, Open = c, High = c, Low = c, Close = c, Volume = 0\<rparr>"




text \<open>
  A manager as \<open>NewManager\<close> seeds it when there is no state file, for the
  configuration's default budget of 10000 and default state file: the weekly
  base is \<open>10000 * 0.70 / 4.33\<close>, the pools hold 7000 and 3000, and the window of
  scores is the nil slice, of length and capacity 0. In the examples the nil
  slice points at array 0, which is empty.
\<close>

definition nil_slice :: slice where
  "nil_slice = \<lparr>s_array = 0, s_off = 0, s_len = 0, s_cap = 0\<rparr>"

definition empty_store :: store where
  "empty_store = \<lparr>arrays = (\<lambda>a. []), allocated = 1\<rparr>"

definition seeded_state :: FundState where
  "seeded_state =
     \<lparr>MonthlyBudget = 10000, WeeklyBaseN = 10000 * 0.70 / 4.33, RegularBalance = 10000 * 0.70,
      ReserveBalance = 10000 * 0.30, BottomFishUsedThisWeek = False,
      ConsecutiveHighScoreWeeks = 0, RecentScores = nil_slice, LastReplenishAt = 0,
      LastRebalanceAt = 0, UpdatedAt = 0\<rparr>"

definition seeded_manager :: Manager where
  "seeded_manager = \<lparr>state = seeded_state, filePath = ''data/fund_state.json'', heap = empty_store\<rparr>"

text \<open>A signal with a given total score and the tier \<open>mapTier\<close> gives it.\<close>

definition signal_of :: "real \<Rightarrow> TradeSignal" where
  "signal_of totalScore =
     \<lparr>Factors = [], TotalScore = totalScore, Tier = mapTier totalScore, BaseAmount = 0,
      FinalAmount = 0, ReserveUsed = 0, TriggerType = TriggerWeekly, WarningMsg = []\<rparr>"

text \<open>A growth policy for the examples: a new array has as many spare elements as the old capacity.\<close>

definition doubling :: "nat \<Rightarrow> nat" where
  "doubling c = c"

text \<open>
  The calls of one week without a reset of the weekly flags: three bottom-fish
  calls among a weekly investment, a replenishment, a rebalance and a read.
\<close>

definition one_week :: "(time \<times> call) list" where
  "one_week =
     [(1, BottomFish 0.5), (2, Weekly (signal_of 1.6)), (3, BottomFish 1.2), (4, Monthly),
      (5, Quarterly), (6, Get), (7, BottomFish (-1))]"

text \<open>A manager whose reserve pool is empty.\<close>

definition drained_manager :: Manager where
  "drained_manager = seeded_manager\<lparr>state := seeded_state\<lparr>ReserveBalance := 0\<rparr>\<rparr>"



text \<open>Fifteen weekly investments with the total scores 0.1, 0.2, ..., 1.5.\<close>

definition fifteen_weeks :: "(time \<times> call) list" where
  "fifteen_weeks =
     map (\<lambda>n. (n, Weekly (signal_of (real_of_int n / 10))))
       [1, 2, 3, 4, 5, 6, 7, 8, 9, 10, 11, 12, 13, 14, 15]"

text \<open>
  A first week with one weekly investment, and what follows it. With the growth
  policy \<open>spare_one\<close> the first append allocates an array of two elements and the
  second append writes into that array.
\<close>

definition first_week :: "(time \<times> call) list" where
  "first_week = [(1, Weekly (signal_of 0.1))]"

definition second_week :: "(time \<times> call) list" where
  "second_week = [(2, Weekly (signal_of 0.2)), (3, Monthly), (4, Get)]"

definition spare_one :: "nat \<Rightarrow> nat" where
  "spare_one c = 1"

section \<open>Properties of the indicator library\<close>

text \<open>
  Claim C8. \<open>Calculate52WeekPosition(price, high, low)\<close> fails exactly when
  \<open>high < low\<close>; it returns 0.5 when \<open>high = low\<close>; for \<open>high > low\<close> it returns
  \<open>(price - low) / (high - low)\<close> clamped to the interval from 0 to 1; so for
  every \<open>high \<ge> low\<close> the result lies between 0 and 1.
\<close>

theorem Calculate52WeekPosition_contract:
  "((\<exists>e. Calculate52WeekPosition price high low = Inl e) \<longleftrightarrow> high < low) \<and>
   (high = low \<longrightarrow> Calculate52WeekPosition price high low = Inr 0.5) \<and>
   (high > low \<longrightarrow>
      Calculate52WeekPosition price high low =
        Inr (min 1 (max 0 ((price - low) / (high - low))))) \<and>
   (high \<ge> low \<longrightarrow>
      (\<exists>pos. Calculate52WeekPosition price high low = Inr pos \<and> 0 \<le> pos \<and> pos \<le> 1))"
proof (intro conjI impI)
  show "(\<exists>e. Calculate52WeekPosition price high low = Inl e) \<longleftrightarrow> high < low"
    by (simp add: Calculate52WeekPosition_def Let_def)
  show "Calculate52WeekPosition price high low = Inr 0.5" if "high = low"
    using that by (simp add: Calculate52WeekPosition_def)
  show "Calculate52WeekPosition price high low =
      Inr (min 1 (max 0 ((price - low) / (high - low))))" if "high > low"
    using that by (simp add: Calculate52WeekPosition_def Let_def min_def max_def)
  show "\<exists>pos. Calculate52WeekPosition price high low = Inr pos \<and> 0 \<le> pos \<and> pos \<le> 1"
    if "high \<ge> low"
  proof (cases "high = low")
    case True
    then show ?thesis
      by (intro exI [of _ "1 / 2"]) (simp add: Calculate52WeekPosition_def)
  next
    case False
    with that show ?thesis
      by (intro exI [of _ "min 1 (max 0 ((price - low) / (high - low)))"])
        (simp add: Calculate52WeekPosition_def Let_def min_def max_def)
  qed
qed

text \<open>
  The contract at five inputs: inside the range, above it, below it, on a flat
  range, and on a range with \<open>high < low\<close>.
\<close>

theorem Calculate52WeekPosition_contract_witness:
  "Calculate52WeekPosition 5990 6000 5000 = Inr 0.99 \<and>
   Calculate52WeekPosition 7000 6000 5000 = Inr 1 \<and>
   Calculate52WeekPosition 4000 6000 5000 = Inr 0 \<and>
   Calculate52WeekPosition 4000 5000 5000 = Inr 0.5 \<and>
   (\<exists>e. Calculate52WeekPosition 5500 5000 6000 = Inl e)"
  using Calculate52WeekPosition_contract [of 5990 6000 5000]
    Calculate52WeekPosition_contract [of 7000 6000 5000]
    Calculate52WeekPosition_contract [of 4000 6000 5000]
    Calculate52WeekPosition_contract [of 4000 5000 5000]
    Calculate52WeekPosition_contract [of 5500 5000 6000]
  by simp

subsection \<open>RSI\<close>

text \<open>Where \<open>period + 1\<close> stays in range and where it wraps.\<close>

lemma wrap64_in_range:
  "- 9223372036854775808 \<le> x \<Longrightarrow> x \<le> 9223372036854775807 \<Longrightarrow> wrap64 x = x"
  by (simp add: wrap64_def)

lemma wrap64_MaxInt64: "wrap64 (MaxInt64 + 1) = - 9223372036854775808"
  by (simp add: wrap64_def MaxInt64_def)

text \<open>
  The two loops, one iteration at a time. The recursive equations are taken out
  of the simplifier's rules and applied through these.
\<close>

declare rsi_seed.simps [simp del] rsi_smooth.simps [simp del]

lemma rsi_seed_done:
  "\<not> i \<le> period \<Longrightarrow> rsi_seed closes period i (g, l) = Inr (g, l)"
  by (subst rsi_seed.simps) simp

lemma rsi_seed_outside:
  "i \<le> period \<Longrightarrow> i < 1 \<or> int (length closes) \<le> i \<Longrightarrow>
     rsi_seed closes period i (g, l) = Inl (Panic ''index out of range'')"
  by (subst rsi_seed.simps) simp

lemma rsi_seed_step:
  "i \<le> period \<Longrightarrow> 1 \<le> i \<Longrightarrow> i < int (length closes) \<Longrightarrow>
     rsi_seed closes period i (g, l) =
       (if closes ! nat i - closes ! nat (i - 1) > 0
        then rsi_seed closes period (i + 1) (g + (closes ! nat i - closes ! nat (i - 1)), l)
        else rsi_seed closes period (i + 1) (g, l - (closes ! nat i - closes ! nat (i - 1))))"
  by (subst rsi_seed.simps) simp

lemma rsi_smooth_done:
  "\<not> i < int (length closes) \<Longrightarrow> rsi_smooth closes period i (g, l) = Inr (g, l)"
  by (subst rsi_smooth.simps) simp

lemma rsi_smooth_step:
  "i < int (length closes) \<Longrightarrow> 1 \<le> i \<Longrightarrow>
     rsi_smooth closes period i (g, l) =
       rsi_smooth closes period (i + 1)
         ((g * real_of_int (period - 1) +
             (if closes ! nat i - closes ! nat (i - 1) > 0
              then closes ! nat i - closes ! nat (i - 1) else 0)) / real_of_int period,
          (l * real_of_int (period - 1) +
             (if closes ! nat i - closes ! nat (i - 1) > 0
              then 0 else - (closes ! nat i - closes ! nat (i - 1)))) / real_of_int period)"
  by (subst rsi_smooth.simps) simp

text \<open>
  With more closes than \<open>period\<close> the first loop ends without a panic, and both
  loops keep the two sums nonnegative.
\<close>

lemma rsi_seed_nonneg:
  "1 \<le> i \<Longrightarrow> period < int (length closes) \<Longrightarrow> 0 \<le> fst acc \<Longrightarrow> 0 \<le> snd acc \<Longrightarrow>
     \<exists>g l. rsi_seed closes period i acc = Inr (g, l) \<and> 0 \<le> g \<and> 0 \<le> l"
proof (induction closes period i acc rule: rsi_seed.induct)
  case (1 closes period i avgGain avgLoss)
  show ?case
  proof (cases "i \<le> period")
    case False
    with "1.prems" show ?thesis by (simp add: rsi_seed_done)
  next
    case True
    with "1.prems" have inside: "\<not> (i < 1 \<or> int (length closes) \<le> i)" and lt: "i < int (length closes)"
      by simp_all
    show ?thesis
    proof (cases "closes ! nat i - closes ! nat (i - 1) > 0")
      case up: True
      with "1.IH"(1) [OF True inside up] "1.prems" show ?thesis
        by (simp add: rsi_seed_step [OF True "1.prems"(1) lt])
    next
      case down: False
      with "1.IH"(2) [OF True inside down] "1.prems" show ?thesis
        by (simp add: rsi_seed_step [OF True "1.prems"(1) lt])
    qed
  qed
qed

lemma rsi_smooth_nonneg:
  "1 \<le> i \<Longrightarrow> 1 \<le> period \<Longrightarrow> 0 \<le> fst acc \<Longrightarrow> 0 \<le> snd acc \<Longrightarrow>
     \<exists>g l. rsi_smooth closes period i acc = Inr (g, l) \<and> 0 \<le> g \<and> 0 \<le> l"
proof (induction closes period i acc rule: rsi_smooth.induct)
  case (1 closes period i avgGain avgLoss)
  show ?case
  proof (cases "i < int (length closes)")
    case False
    with "1.prems" show ?thesis by (simp add: rsi_smooth_done)
  next
    case True
    from "1.prems" have inside: "\<not> i < 1" by simp
    from "1.prems" have
      "0 \<le> (avgGain * real_of_int (period - 1) +
          (if closes ! nat i - closes ! nat (i - 1) > 0
           then closes ! nat i - closes ! nat (i - 1) else 0)) / real_of_int period"
      and "0 \<le> (avgLoss * real_of_int (period - 1) +
          (if closes ! nat i - closes ! nat (i - 1) > 0
           then 0 else - (closes ! nat i - closes ! nat (i - 1)))) / real_of_int period"
      by (simp_all add: divide_nonneg_pos)
    with "1.IH" [OF True inside] "1.prems" show ?thesis
      by (simp add: rsi_smooth_step [OF True "1.prems"(1)])
  qed
qed

text \<open>With no more closes than \<open>period\<close> the first loop runs off the end of the slice.\<close>

lemma rsi_seed_panics:
  "1 \<le> i \<Longrightarrow> i \<le> int (length closes) \<Longrightarrow> int (length closes) \<le> period \<Longrightarrow>
     rsi_seed closes period i acc = Inl (Panic ''index out of range'')"
proof (induction closes period i acc rule: rsi_seed.induct)
  case (1 closes period i avgGain avgLoss)
  from "1.prems" have le: "i \<le> period" by simp
  show ?case
  proof (cases "int (length closes) \<le> i")
    case True
    with le show ?thesis by (simp add: rsi_seed_outside)
  next
    case False
    with "1.prems" have inside: "\<not> (i < 1 \<or> int (length closes) \<le> i)"
      and lt: "i < int (length closes)"
      by simp_all
    show ?thesis
    proof (cases "closes ! nat i - closes ! nat (i - 1) > 0")
      case up: True
      with "1.IH"(1) [OF le inside up] "1.prems" lt show ?thesis
        by (simp add: rsi_seed_step [OF le "1.prems"(1) lt])
    next
      case down: False
      with "1.IH"(2) [OF le inside down] "1.prems" lt show ?thesis
        by (simp add: rsi_seed_step [OF le "1.prems"(1) lt])
    qed
  qed
qed

lemma rsi_averages_nonneg:
  assumes "1 \<le> period" and "period < MaxInt64" and "period + 1 \<le> int (length bars)"
  shows "\<exists>g l. rsi_averages bars period = Inr (g, l) \<and> 0 \<le> g \<and> 0 \<le> l"
proof -
  have len: "period < int (length (extractCloses bars))"
    using assms(3) by (simp add: extractCloses_def)
  from rsi_seed_nonneg [OF _ len, of 1 "(0, 0)"]
  obtain g l where seed: "rsi_seed (extractCloses bars) period 1 (0, 0) = Inr (g, l)"
    and "0 \<le> g" "0 \<le> l"
    by auto
  with assms(1) have "0 \<le> g / real_of_int period" "0 \<le> l / real_of_int period"
    by simp_all
  moreover have "wrap64 (period + 1) = period + 1"
    using assms(1,2) by (simp add: wrap64_in_range MaxInt64_def)
  moreover have "1 \<le> period + 1"
    using assms(1) by simp
  ultimately show ?thesis
    using rsi_smooth_nonneg [OF _ assms(1), of "period + 1"
        "(g / real_of_int period, l / real_of_int period)" "extractCloses bars"] seed
    by (simp add: rsi_averages_def)
qed

lemma rsi_value_bounds:
  assumes "0 \<le> g" and "0 < l"
  shows "0 \<le> 100 - 100 / (1 + g / l)" and "100 - 100 / (1 + g / (l::real)) \<le> 100"
proof -
  from assms have "1 \<le> 1 + g / l" by simp
  then have "100 / (1 + g / l) \<le> 100"
    by (simp add: divide_le_eq)
  then show "0 \<le> 100 - 100 / (1 + g / l)" by simp
  from assms have "0 \<le> 100 / (1 + g / l)"
    by (simp add: add_nonneg_nonneg)
  then show "100 - 100 / (1 + g / l) \<le> 100" by simp
qed

text \<open>
  For every period from 1 to \<open>MaxInt64 - 1\<close>, \<open>CalculateRSI\<close> returns 50 when
  fewer than \<open>period + 1\<close> bars are supplied; otherwise both loops end, and it
  returns 100 when the smoothed average loss is zero and else the RSI of the two
  averages, which lies between 0 and 100.
\<close>

lemma CalculateRSI_in_range:
  assumes "1 \<le> period" and "period < MaxInt64"
  shows
    "(int (length bars) < period + 1 \<longrightarrow> CalculateRSI bars period = Inr 50.0) \<and>
     (period + 1 \<le> int (length bars) \<longrightarrow>
        (\<exists>avgGain avgLoss.
           rsi_averages bars period = Inr (avgGain, avgLoss) \<and> 0 \<le> avgGain \<and> 0 \<le> avgLoss \<and>
           (avgLoss = 0 \<longrightarrow> CalculateRSI bars period = Inr 100.0) \<and>
           (avgLoss \<noteq> 0 \<longrightarrow>
              CalculateRSI bars period = Inr (100.0 - 100.0 / (1.0 + avgGain / avgLoss)) \<and>
              0 \<le> 100.0 - 100.0 / (1.0 + avgGain / avgLoss) \<and>
              100.0 - 100.0 / (1.0 + avgGain / avgLoss) \<le> 100)))"
proof (intro conjI impI)
  have w: "wrap64 (period + 1) = period + 1"
    using assms by (simp add: wrap64_in_range MaxInt64_def)
  show "CalculateRSI bars period = Inr 50.0" if "int (length bars) < period + 1"
    using that assms(1) w by (simp add: CalculateRSI_def)
  show "\<exists>avgGain avgLoss.
           rsi_averages bars period = Inr (avgGain, avgLoss) \<and> 0 \<le> avgGain \<and> 0 \<le> avgLoss \<and>
           (avgLoss = 0 \<longrightarrow> CalculateRSI bars period = Inr 100.0) \<and>
           (avgLoss \<noteq> 0 \<longrightarrow>
              CalculateRSI bars period = Inr (100.0 - 100.0 / (1.0 + avgGain / avgLoss)) \<and>
              0 \<le> 100.0 - 100.0 / (1.0 + avgGain / avgLoss) \<and>
              100.0 - 100.0 / (1.0 + avgGain / avgLoss) \<le> 100)"
    if enough: "period + 1 \<le> int (length bars)"
  proof -
    from rsi_averages_nonneg [OF assms enough]
    obtain g l where av: "rsi_averages bars period = Inr (g, l)" and g: "0 \<le> g" and l: "0 \<le> l"
      by auto
    have guard: "\<not> period \<le> 0" "\<not> int (length bars) < wrap64 (period + 1)"
      using assms(1) enough w by simp_all
    have zero: "CalculateRSI bars period = Inr 100.0" if "l = 0"
      using that av guard by (simp add: CalculateRSI_def)
    have pos: "CalculateRSI bars period = Inr (100.0 - 100.0 / (1.0 + g / l))" if "l \<noteq> 0"
      using that av guard by (simp add: CalculateRSI_def Let_def)
    have bounds: "0 \<le> 100.0 - 100.0 / (1.0 + g / l) \<and> 100.0 - 100.0 / (1.0 + g / l) \<le> 100"
      if "l \<noteq> 0"
      using rsi_value_bounds [OF g, of l] that l by simp
    from av g l zero pos bounds show ?thesis by blast
  qed
qed

text \<open>Four runs: a mixed series, gains only, too few bars, and a period of 0.\<close>

lemma CalculateRSI_examples:
  "CalculateRSI (map bar [1, 2, 3, 2, 4, 5]) 3 = Inr (2900 / 33) \<and>
   CalculateRSI (map bar [1, 2, 3, 4, 5]) 3 = Inr 100 \<and>
   CalculateRSI (map bar [1, 2, 3]) 3 = Inr 50 \<and>
   CalculateRSI (map bar [1, 2, 3]) 0 = Inl (Error ''period must be positive'')"
  by code_simp

text \<open>
  At \<open>period = MaxInt64\<close> the sum \<open>period + 1\<close> wraps to the least \<open>int\<close>, the test
  \<open>len(bars) < period + 1\<close> is false for every slice, and the first loop indexes
  past the end of the closes.
\<close>

lemma CalculateRSI_MaxInt64:
  assumes "int (length bars) \<le> MaxInt64"
  shows "CalculateRSI bars MaxInt64 = Inl (Panic ''index out of range'')"
proof -
  have "rsi_seed (extractCloses bars) MaxInt64 1 (0, 0) = Inl (Panic ''index out of range'')"
  proof (cases "bars = []")
    case True
    then show ?thesis
      by (simp add: rsi_seed_outside extractCloses_def MaxInt64_def)
  next
    case False
    then have "1 \<le> int (length (extractCloses bars))"
      by (cases bars) (simp_all add: extractCloses_def)
    moreover from assms have "int (length (extractCloses bars)) \<le> MaxInt64"
      by (simp add: extractCloses_def)
    ultimately show ?thesis
      using rsi_seed_panics [of 1 "extractCloses bars" MaxInt64 "(0, 0)"] by simp
  qed
  then have "rsi_averages bars MaxInt64 = Inl (Panic ''index out of range'')"
    by (simp add: rsi_averages_def)
  moreover have "\<not> MaxInt64 \<le> 0" "\<not> int (length bars) < wrap64 (MaxInt64 + 1)"
    by (simp_all add: wrap64_MaxInt64) (simp add: MaxInt64_def)
  ultimately show ?thesis
    by (simp add: CalculateRSI_def)
qed

text \<open>
  Claim C7. For every period \<open>\<ge> 1\<close>, \<open>CalculateRSI\<close> returns exactly 50.0 when
  fewer than \<open>period + 1\<close> bars are supplied, exactly 100.0 when the smoothed
  average loss is zero, and a value between 0 and 100 in every other case. The
  source's comment says the same (\<open>Returns 50.0 if data is insufficient\<close>). This
  holds for every period below \<open>MaxInt64\<close> (\<open>CalculateRSI_in_range\<close>), and fails
  at \<open>period = MaxInt64\<close>: with no bars, or with three, there are fewer than
  \<open>period + 1\<close> bars and the call ends in a run-time panic instead of returning
  50.0.
\<close>

theorem CalculateRSI_guard_overflows:
  "1 \<le> MaxInt64 \<and>
   int (length ([] :: OHLCV list)) < MaxInt64 + 1 \<and>
   CalculateRSI [] MaxInt64 = Inl (Panic ''index out of range'') \<and>
   CalculateRSI [bar 10, bar 11, bar 12] MaxInt64 = Inl (Panic ''index out of range'')"
proof -
  have "CalculateRSI [] MaxInt64 = Inl (Panic ''index out of range'')"
    by (rule CalculateRSI_MaxInt64) (simp add: MaxInt64_def)
  moreover have "CalculateRSI [bar 10, bar 11, bar 12] MaxInt64 = Inl (Panic ''index out of range'')"
    by (rule CalculateRSI_MaxInt64) (simp add: MaxInt64_def)
  ultimately show ?thesis
    by (simp add: MaxInt64_def)
qed

section \<open>Properties of the tier policy\<close>

text \<open>The loop over the whole table, as one chain of comparisons.\<close>

lemma firstTier_Tiers:
  "firstTier Tiers s =
     (if s \<ge> 1.5 then \<lparr>Label = Label_extreme_heavy, Multiplier = 1.0, UseReserve = 1.5\<rparr>
      else if s \<ge> 1.2 then \<lparr>Label = Label_heavy, Multiplier = 1.0, UseReserve = 1.0\<rparr>
      else if s \<ge> 0.8 then \<lparr>Label = Label_add, Multiplier = 1.0, UseReserve = 0.5\<rparr>
      else if s \<ge> 0.0 then \<lparr>Label = Label_normal, Multiplier = 1.0, UseReserve = 0\<rparr>
      else if s \<ge> -0.8 then \<lparr>Label = Label_reduced, Multiplier = 0.5, UseReserve = 0\<rparr>
      else if s \<ge> -1.5 then \<lparr>Label = Label_light_watch, Multiplier = 0.25, UseReserve = 0\<rparr>
      else DefaultTier)"
  by (simp add: Tiers_def)

text \<open>The seven labels are seven different strings.\<close>

lemma labels_distinct:
  "distinct [Label_extreme_heavy, Label_heavy, Label_add, Label_normal, Label_reduced,
     Label_light_watch, Label_minimum]"
  by (simp add: Label_extreme_heavy_def Label_heavy_def Label_add_def Label_normal_def
      Label_reduced_def Label_light_watch_def Label_minimum_def)

text \<open>
  Claim C4. \<open>mapTier\<close> is a total function of the score: the first of the
  thresholds 1.5, 1.2, 0.8, 0.0, -0.8, -1.5 (descending, in table order) that the
  score reaches decides the tier, and a score that reaches none gets the default
  tier. At the boundaries, \<open>mapTier(1.5)\<close> is the extreme-heavy tier,
  \<open>mapTier(1.49999)\<close> the heavy tier, \<open>mapTier(-1.5)\<close> the light/watch tier and
  \<open>mapTier(-1.50001)\<close> the minimum tier. The score ranges over the reals; what
  the loop does with a NaN is outside the number model.
\<close>

theorem mapTier_total_first_match:
  "(\<forall>s. mapTier s =
     (if s \<ge> 1.5 then \<lparr>Label = Label_extreme_heavy, Multiplier = 1.0, UseReserve = 1.5\<rparr>
      else if s \<ge> 1.2 then \<lparr>Label = Label_heavy, Multiplier = 1.0, UseReserve = 1.0\<rparr>
      else if s \<ge> 0.8 then \<lparr>Label = Label_add, Multiplier = 1.0, UseReserve = 0.5\<rparr>
      else if s \<ge> 0.0 then \<lparr>Label = Label_normal, Multiplier = 1.0, UseReserve = 0\<rparr>
      else if s \<ge> -0.8 then \<lparr>Label = Label_reduced, Multiplier = 0.5, UseReserve = 0\<rparr>
      else if s \<ge> -1.5 then \<lparr>Label = Label_light_watch, Multiplier = 0.25, UseReserve = 0\<rparr>
      else \<lparr>Label = Label_minimum, Multiplier = 0.15, UseReserve = 0\<rparr>)) \<and>
   map fst Tiers = [1.5, 1.2, 0.8, 0.0, -0.8, -1.5] \<and>
   Label (mapTier 1.5) = Label_extreme_heavy \<and>
   Label (mapTier 1.49999) = Label_heavy \<and>
   Label (mapTier (-1.5)) = Label_light_watch \<and>
   Label (mapTier (-1.50001)) = Label_minimum \<and>
   distinct [Label_extreme_heavy, Label_heavy, Label_add, Label_normal, Label_reduced,
     Label_light_watch, Label_minimum]"
proof -
  have "map fst Tiers = [1.5, 1.2, 0.8, 0.0, -0.8, -1.5]"
    by (simp add: Tiers_def)
  then show ?thesis
    using labels_distinct by (simp add: mapTier_def firstTier_Tiers DefaultTier_def)
qed

section \<open>Properties of the scoring model\<close>

text \<open>Each scorer returns its fixed weight, and its weighted score is raw score times weight.\<close>

lemma Weight_scoreMA200Deviation:
  "Weight (scoreMA200Deviation sprintf ind) = 0.35"
  by (simp add: scoreMA200Deviation_def Let_def)

lemma Weighted_scoreMA200Deviation:
  "Weighted (scoreMA200Deviation sprintf ind) = RawScore (scoreMA200Deviation sprintf ind) * 0.35"
  by (simp add: scoreMA200Deviation_def Let_def)

lemma Weight_scoreWeeklyRSI:
  "Weight (scoreWeeklyRSI sprintf ind) = 0.25"
  by (simp add: scoreWeeklyRSI_def Let_def)

lemma Weighted_scoreWeeklyRSI:
  "Weighted (scoreWeeklyRSI sprintf ind) = RawScore (scoreWeeklyRSI sprintf ind) * 0.25"
  by (simp add: scoreWeeklyRSI_def Let_def)

lemma Weight_scoreDailyRSI:
  "Weight (scoreDailyRSI sprintf ind) = 0.15"
  by (simp add: scoreDailyRSI_def Let_def)

lemma Weighted_scoreDailyRSI:
  "Weighted (scoreDailyRSI sprintf ind) = RawScore (scoreDailyRSI sprintf ind) * 0.15"
  by (simp add: scoreDailyRSI_def Let_def)

lemma Weight_score52WeekPosition:
  "Weight (score52WeekPosition sprintf ind avg) = 0.10"
  by (simp add: score52WeekPosition_def Let_def)

lemma Weighted_score52WeekPosition:
  "Weighted (score52WeekPosition sprintf ind avg) = RawScore (score52WeekPosition sprintf ind avg) * 0.10"
  by (simp add: score52WeekPosition_def Let_def)

lemma Weight_scoreTrendTracker:
  "Weight (scoreTrendTracker ind) = 0.15"
  by (simp add: scoreTrendTracker_def Let_def split: prod.split)

lemma Weighted_scoreTrendTracker:
  "Weighted (scoreTrendTracker ind) = RawScore (scoreTrendTracker ind) * 0.15"
  by (simp add: scoreTrendTracker_def Let_def split: prod.split)

text \<open>The factors and the total score of a signal, read off \<open>Evaluate\<close>.\<close>

lemma Factors_Evaluate:
  "Factors (Evaluate sprintf ind) =
     [scoreMA200Deviation sprintf ind, scoreWeeklyRSI sprintf ind, scoreDailyRSI sprintf ind,
      score52WeekPosition sprintf ind
        ((RawScore (scoreMA200Deviation sprintf ind) + RawScore (scoreWeeklyRSI sprintf ind) +
          RawScore (scoreDailyRSI sprintf ind) + RawScore (scoreTrendTracker ind)) / 4),
      scoreTrendTracker ind]"
  by (simp add: Evaluate_def Let_def)

lemma TotalScore_Evaluate:
  "TotalScore (Evaluate sprintf ind) =
     Weighted (scoreMA200Deviation sprintf ind) + Weighted (scoreWeeklyRSI sprintf ind) +
     Weighted (scoreDailyRSI sprintf ind) +
     Weighted (score52WeekPosition sprintf ind
        ((RawScore (scoreMA200Deviation sprintf ind) + RawScore (scoreWeeklyRSI sprintf ind) +
          RawScore (scoreDailyRSI sprintf ind) + RawScore (scoreTrendTracker ind)) / 4)) +
     Weighted (scoreTrendTracker ind)"
  by (simp add: Evaluate_def Let_def)





text \<open>
  Claim C6. For every indicator set, \<open>Evaluate\<close> produces exactly five factor
  scores with the weights 0.35, 0.25, 0.15, 0.10, 0.15, which sum to 1.0; each
  factor's \<open>Weighted\<close> is its \<open>RawScore\<close> times its \<open>Weight\<close>; and \<open>TotalScore\<close> is
  the sum of the five \<open>Weighted\<close> values. The signal is a function of the
  indicator set (and of the formatter, for the commentaries): \<open>Evaluate\<close> reads no
  clock, no random source and no variable that the program assigns after start.
\<close>

theorem Evaluate_five_weighted_factors:
  "(let fs = Factors (Evaluate sprintf ind) in
      length fs = 5 \<and>
      map Weight fs = [0.35, 0.25, 0.15, 0.10, 0.15] \<and>
      sum_list (map Weight fs) = 1.0 \<and>
      map Weighted fs = map (\<lambda>f. RawScore f * Weight f) fs \<and>
      TotalScore (Evaluate sprintf ind) =
        Weighted (fs ! 0) + Weighted (fs ! 1) + Weighted (fs ! 2) + Weighted (fs ! 3) +
        Weighted (fs ! 4) \<and>
      TotalScore (Evaluate sprintf ind) = sum_list (map Weighted fs))"
  by (simp add: Factors_Evaluate TotalScore_Evaluate Let_def
      Weight_scoreMA200Deviation Weight_scoreWeeklyRSI Weight_scoreDailyRSI
      Weight_score52WeekPosition Weight_scoreTrendTracker
      Weighted_scoreMA200Deviation Weighted_scoreWeeklyRSI Weighted_scoreDailyRSI
      Weighted_score52WeekPosition Weighted_scoreTrendTracker)

section \<open>Properties of the fund state machine\<close>

subsection \<open>What each method does to the pools and to the weekly flag\<close>

lemma weekly_pools:
  "CalculateWeeklyInvestment grow now signal m = (m', finalAmount, reserveUsed) \<Longrightarrow>
     reserveUsed = min (WeeklyBaseN (state m) * UseReserve (Tier signal)) (ReserveBalance (state m)) \<and>
     finalAmount =
       min (WeeklyBaseN (state m) * Multiplier (Tier signal)) (RegularBalance (state m)) +
       min (WeeklyBaseN (state m) * UseReserve (Tier signal)) (ReserveBalance (state m)) \<and>
     RegularBalance (state m') =
       RegularBalance (state m) -
       min (WeeklyBaseN (state m) * Multiplier (Tier signal)) (RegularBalance (state m)) \<and>
     ReserveBalance (state m') =
       ReserveBalance (state m) -
       min (WeeklyBaseN (state m) * UseReserve (Tier signal)) (ReserveBalance (state m))"
  by (auto simp: CalculateWeeklyInvestment_def Let_def save_def min_def split: prod.splits if_splits)

lemma bottom_fish_unused:
  "\<not> BottomFishUsedThisWeek (state m) \<Longrightarrow>
   CalculateBottomFishInvestment now totalScore m = (m', amount, t) \<Longrightarrow>
     t \<and> amount =
       min (WeeklyBaseN (state m) *
              (if totalScore > 1.0 then 1.5 else if totalScore > 0 then 1.0
               else if totalScore < -0.5 then 0.5 else 0.75))
           (ReserveBalance (state m)) \<and>
     ReserveBalance (state m') = ReserveBalance (state m) - amount \<and>
     RegularBalance (state m') = RegularBalance (state m) \<and>
     BottomFishUsedThisWeek (state m')"
  by (auto simp: CalculateBottomFishInvestment_def Let_def save_def min_def)

lemma bottom_fish_used:
  "BottomFishUsedThisWeek (state m) \<Longrightarrow>
   CalculateBottomFishInvestment now totalScore m = (m, 0, False)"
  by (simp add: CalculateBottomFishInvestment_def)

lemma monthly_pools:
  "RegularBalance (state (MonthlyReplenish now m)) =
     RegularBalance (state m) + MonthlyBudget (state m) * 0.70 \<and>
   ReserveBalance (state (MonthlyReplenish now m)) =
     ReserveBalance (state m) + MonthlyBudget (state m) * 0.30"
  by (simp add: MonthlyReplenish_def Let_def save_def)

lemma quarterly_pools:
  "QuarterlyRebalance now m = (m', msg) \<Longrightarrow>
   (if ReserveBalance (state m) > 6 * WeeklyBaseN (state m) then
      ReserveBalance (state m') = 6 * WeeklyBaseN (state m) \<and>
      RegularBalance (state m') =
        RegularBalance (state m) + (ReserveBalance (state m) - 6 * WeeklyBaseN (state m)) \<and>
      msg = Msg_excess
    else if ConsecutiveHighScoreWeeks (state m) \<ge> 4 \<and>
        ReserveBalance (state m) < 3 * WeeklyBaseN (state m) then
      ReserveBalance (state m') = 3 * WeeklyBaseN (state m) \<and>
      RegularBalance (state m') = RegularBalance (state m) \<and>
      msg = Msg_topup
    else
      ReserveBalance (state m') = ReserveBalance (state m) \<and>
      RegularBalance (state m') = RegularBalance (state m) \<and>
      msg = Msg_no_change)"
  by (auto simp: QuarterlyRebalance_def Let_def save_def split: if_splits)

lemma reset_pools:
  "RegularBalance (state (ResetWeeklyFlags now m)) = RegularBalance (state m) \<and>
   ReserveBalance (state (ResetWeeklyFlags now m)) = ReserveBalance (state m) \<and>
   \<not> BottomFishUsedThisWeek (state (ResetWeeklyFlags now m))"
  by (simp add: ResetWeeklyFlags_def save_def)

lemma weekly_flag:
  "CalculateWeeklyInvestment grow now signal m = (m', r) \<Longrightarrow>
     BottomFishUsedThisWeek (state m') = BottomFishUsedThisWeek (state m)"
  by (auto simp: CalculateWeeklyInvestment_def Let_def save_def split: prod.splits if_splits)

lemma monthly_flag:
  "BottomFishUsedThisWeek (state (MonthlyReplenish now m)) = BottomFishUsedThisWeek (state m)"
  by (simp add: MonthlyReplenish_def Let_def save_def)

lemma quarterly_flag:
  "QuarterlyRebalance now m = (m', msg) \<Longrightarrow>
     BottomFishUsedThisWeek (state m') = BottomFishUsedThisWeek (state m)"
  by (auto simp: QuarterlyRebalance_def Let_def save_def split: if_splits)

lemma do_call_flag_kept:
  assumes "c \<noteq> ResetFlags" and "BottomFishUsedThisWeek (state m)"
    and "do_call grow (now, c) m = (m', r)"
  shows "BottomFishUsedThisWeek (state m') \<and> \<not> triggered r"
proof (cases c)
  case (Weekly signal)
  with assms show ?thesis
    by (auto simp: triggered_def split: prod.splits dest: weekly_flag)
next
  case (BottomFish totalScore)
  with assms show ?thesis
    by (auto simp: triggered_def bottom_fish_used)
next
  case Monthly
  with assms show ?thesis
    by (auto simp: triggered_def monthly_flag)
next
  case Quarterly
  with assms show ?thesis
    by (auto simp: triggered_def split: prod.splits dest: quarterly_flag)
next
  case ResetFlags
  with assms show ?thesis by simp
next
  case Get
  with assms show ?thesis
    by (auto simp: triggered_def)
qed

lemma do_call_triggered_sets_flag:
  assumes "do_call grow (now, c) m = (m', r)" and "triggered r"
  shows "BottomFishUsedThisWeek (state m')"
proof (cases c)
  case (BottomFish totalScore)
  with assms show ?thesis
    by (cases "BottomFishUsedThisWeek (state m)")
      (auto simp: triggered_def bottom_fish_used split: prod.splits dest: bottom_fish_unused)
qed (use assms in \<open>auto simp: triggered_def split: prod.splits\<close>)

subsection \<open>Sequences of calls and the weekly flag\<close>

lemma run_calls_Cons:
  "do_call grow c m = (m', r) \<Longrightarrow>
     fst (run_calls grow (c # cs) m) = fst (run_calls grow cs m') \<and>
     snd (run_calls grow (c # cs) m) = r # snd (run_calls grow cs m')"
  by (simp split: prod.splits)

lemma run_calls_flag_set:
  "BottomFishUsedThisWeek (state m) \<Longrightarrow> ResetFlags \<notin> snd ` set cs \<Longrightarrow>
     filter triggered (snd (run_calls grow cs m)) = []"
proof (induction cs arbitrary: m)
  case Nil
  then show ?case by simp
next
  case (Cons c cs)
  obtain now k where c: "c = (now, k)" by (cases c)
  obtain m' r where step: "do_call grow (now, k) m = (m', r)" by (cases "do_call grow (now, k) m")
  from Cons.prems c have "k \<noteq> ResetFlags" by auto
  from do_call_flag_kept [OF this Cons.prems(1) step]
  have "BottomFishUsedThisWeek (state m')" and "\<not> triggered r" by simp_all
  moreover from Cons.prems have "ResetFlags \<notin> snd ` set cs" by auto
  ultimately show ?case
    using Cons.IH [of m'] c step by (simp add: run_calls_Cons del: run_calls.simps)
qed

lemma run_calls_at_most_one:
  "ResetFlags \<notin> snd ` set cs \<Longrightarrow>
     length (filter triggered (snd (run_calls grow cs m))) \<le> 1"
proof (induction cs arbitrary: m)
  case Nil
  then show ?case by simp
next
  case (Cons c cs)
  obtain now k where c: "c = (now, k)" by (cases c)
  obtain m' r where step: "do_call grow (now, k) m = (m', r)" by (cases "do_call grow (now, k) m")
  from Cons.prems have rest: "ResetFlags \<notin> snd ` set cs" by auto
  show ?case
  proof (cases "triggered r")
    case True
    with step have "BottomFishUsedThisWeek (state m')"
      by (rule do_call_triggered_sets_flag)
    then have "filter triggered (snd (run_calls grow cs m')) = []"
      using rest by (rule run_calls_flag_set)
    with True c step show ?thesis by (simp add: run_calls_Cons del: run_calls.simps)
  next
    case False
    with Cons.IH [OF rest, of m'] c step show ?thesis
      by (simp add: run_calls_Cons del: run_calls.simps)
  qed
qed

text \<open>The fields of the example managers and signals.\<close>

lemma seeded_manager_fields:
  "RegularBalance (state seeded_manager) = 7000"
  "ReserveBalance (state seeded_manager) = 3000"
  "WeeklyBaseN (state seeded_manager) = 700000 / 433"
  "MonthlyBudget (state seeded_manager) = 10000"
  "BottomFishUsedThisWeek (state seeded_manager) = False"
  "ConsecutiveHighScoreWeeks (state seeded_manager) = 0"
  by (simp_all add: seeded_manager_def seeded_state_def)

lemma Tier_signal_of:
  "Tier (signal_of s) = mapTier s" "TotalScore (signal_of s) = s"
  by (simp_all add: signal_of_def)

subsection \<open>Pool balances\<close>

text \<open>
  Claim C1. For every fund state whose regular and reserve balances, weekly base
  and monthly budget are nonnegative, and every signal whose tier has a
  nonnegative multiplier and reserve use, each operation of the fund state
  machine (\<open>CalculateWeeklyInvestment\<close>, \<open>CalculateBottomFishInvestment\<close>,
  \<open>MonthlyReplenish\<close>, \<open>QuarterlyRebalance\<close>, \<open>ResetWeeklyFlags\<close>) leaves both pool
  balances nonnegative, and every withdrawal is between 0 and the balance of the
  pool it is taken from.
\<close>

theorem pool_balances_stay_nonnegative:
  assumes "0 \<le> RegularBalance (state m)" and "0 \<le> ReserveBalance (state m)"
    and "0 \<le> WeeklyBaseN (state m)" and "0 \<le> MonthlyBudget (state m)"
    and "0 \<le> Multiplier (Tier signal)" and "0 \<le> UseReserve (Tier signal)"
  shows
    "(case CalculateWeeklyInvestment grow now signal m of (m', finalAmount, reserveUsed) \<Rightarrow>
        pools_nonneg m' \<and>
        0 \<le> reserveUsed \<and> reserveUsed \<le> ReserveBalance (state m) \<and>
        0 \<le> finalAmount - reserveUsed \<and> finalAmount - reserveUsed \<le> RegularBalance (state m) \<and>
        RegularBalance (state m') = RegularBalance (state m) - (finalAmount - reserveUsed) \<and>
        ReserveBalance (state m') = ReserveBalance (state m) - reserveUsed) \<and>
     (case CalculateBottomFishInvestment now totalScore m of (m', amount, t) \<Rightarrow>
        pools_nonneg m' \<and>
        0 \<le> amount \<and> amount \<le> ReserveBalance (state m) \<and>
        RegularBalance (state m') = RegularBalance (state m) \<and>
        ReserveBalance (state m') = ReserveBalance (state m) - amount) \<and>
     pools_nonneg (MonthlyReplenish now m) \<and>
     pools_nonneg (fst (QuarterlyRebalance now m)) \<and>
     pools_nonneg (ResetWeeklyFlags now m)"
proof (intro conjI)
  show "case CalculateWeeklyInvestment grow now signal m of (m', finalAmount, reserveUsed) \<Rightarrow>
        pools_nonneg m' \<and>
        0 \<le> reserveUsed \<and> reserveUsed \<le> ReserveBalance (state m) \<and>
        0 \<le> finalAmount - reserveUsed \<and> finalAmount - reserveUsed \<le> RegularBalance (state m) \<and>
        RegularBalance (state m') = RegularBalance (state m) - (finalAmount - reserveUsed) \<and>
        ReserveBalance (state m') = ReserveBalance (state m) - reserveUsed"
  proof (cases "CalculateWeeklyInvestment grow now signal m")
    case (fields m' finalAmount reserveUsed)
    note w = weekly_pools [OF fields]
    have "0 \<le> WeeklyBaseN (state m) * UseReserve (Tier signal)"
      and "0 \<le> WeeklyBaseN (state m) * Multiplier (Tier signal)"
      using assms by simp_all
    with w assms(1,2) show ?thesis
      unfolding fields pools_nonneg_def by simp
  qed
  show "case CalculateBottomFishInvestment now totalScore m of (m', amount, t) \<Rightarrow>
        pools_nonneg m' \<and>
        0 \<le> amount \<and> amount \<le> ReserveBalance (state m) \<and>
        RegularBalance (state m') = RegularBalance (state m) \<and>
        ReserveBalance (state m') = ReserveBalance (state m) - amount"
  proof (cases "BottomFishUsedThisWeek (state m)")
    case True
    with assms(1,2) show ?thesis
      by (simp add: bottom_fish_used pools_nonneg_def)
  next
    case False
    obtain m' amount t where r: "CalculateBottomFishInvestment now totalScore m = (m', amount, t)"
      by (cases "CalculateBottomFishInvestment now totalScore m")
    note b = bottom_fish_unused [OF False r]
    have "0 \<le> WeeklyBaseN (state m) *
        (if totalScore > 1.0 then 1.5 else if totalScore > 0 then 1.0
         else if totalScore < -0.5 then 0.5 else 0.75)"
      using assms(3) by simp
    with b assms(2) have "0 \<le> amount \<and> amount \<le> ReserveBalance (state m)"
      by (simp add: min_def)
    moreover from b have
      "RegularBalance (state m') = RegularBalance (state m)"
      "ReserveBalance (state m') = ReserveBalance (state m) - amount"
      by simp_all
    ultimately show ?thesis
      unfolding r pools_nonneg_def using assms(1) by simp
  qed
  show "pools_nonneg (MonthlyReplenish now m)"
    using assms(1,2,4) by (simp add: pools_nonneg_def monthly_pools)
  show "pools_nonneg (fst (QuarterlyRebalance now m))"
  proof (cases "QuarterlyRebalance now m")
    case (Pair m' msg)
    from quarterly_pools [OF Pair] assms(1,2,3) Pair show ?thesis
      by (auto simp: pools_nonneg_def split: if_splits)
  qed
  show "pools_nonneg (ResetWeeklyFlags now m)"
    using assms(1,2) by (simp add: pools_nonneg_def reset_pools)
qed

text \<open>The seeded manager and a signal of the extreme-heavy tier satisfy the hypotheses.\<close>

theorem pool_balances_stay_nonnegative_witness:
  "0 \<le> RegularBalance (state seeded_manager) \<and> 0 \<le> ReserveBalance (state seeded_manager) \<and>
   0 \<le> WeeklyBaseN (state seeded_manager) \<and> 0 \<le> MonthlyBudget (state seeded_manager) \<and>
   0 \<le> Multiplier (Tier (signal_of 1.6)) \<and> 0 \<le> UseReserve (Tier (signal_of 1.6)) \<and>
   pools_nonneg (fst (CalculateWeeklyInvestment doubling 1 (signal_of 1.6) seeded_manager)) \<and>
   pools_nonneg (fst (CalculateBottomFishInvestment 1 1.6 seeded_manager)) \<and>
   pools_nonneg (MonthlyReplenish 1 seeded_manager) \<and>
   pools_nonneg (fst (QuarterlyRebalance 1 seeded_manager)) \<and>
   pools_nonneg (ResetWeeklyFlags 1 seeded_manager)"
proof -
  have h: "0 \<le> RegularBalance (state seeded_manager)" "0 \<le> ReserveBalance (state seeded_manager)"
    "0 \<le> WeeklyBaseN (state seeded_manager)" "0 \<le> MonthlyBudget (state seeded_manager)"
    by (simp_all add: seeded_manager_fields)
  have t: "0 \<le> Multiplier (Tier (signal_of 1.6))" "0 \<le> UseReserve (Tier (signal_of 1.6))"
    by (simp_all add: Tier_signal_of mapTier_def firstTier_Tiers)
  from pool_balances_stay_nonnegative [OF h t, where grow = doubling and now = 1 and totalScore = "1.6"] h t show ?thesis
    by (simp split: prod.splits)
qed

subsection \<open>Bottom-fish withdrawals\<close>

text \<open>
  Claim C2. In every sequence of calls that contains no \<open>ResetWeeklyFlags\<close>, at
  most one \<open>CalculateBottomFishInvestment\<close> call returns \<open>triggered = true\<close>. And a
  call made while the weekly flag is unset always returns \<open>triggered = true\<close>,
  whatever the reserve holds: it withdraws the weekly base times the multiplier
  of the score band, capped at the reserve balance, from the reserve pool only,
  and sets the flag.
\<close>

theorem bottom_fish_once_between_resets:
  "(ResetFlags \<notin> snd ` set cs \<longrightarrow>
      length (filter triggered (snd (run_calls grow cs m))) \<le> 1) \<and>
   (\<not> BottomFishUsedThisWeek (state m) \<longrightarrow>
      (case CalculateBottomFishInvestment now totalScore m of (m', amount, t) \<Rightarrow>
         t \<and>
         amount =
           min (WeeklyBaseN (state m) *
                  (if totalScore > 1.0 then 1.5 else if totalScore > 0 then 1.0
                   else if totalScore < -0.5 then 0.5 else 0.75))
               (ReserveBalance (state m)) \<and>
         amount \<le> ReserveBalance (state m) \<and>
         ReserveBalance (state m') = ReserveBalance (state m) - amount \<and>
         RegularBalance (state m') = RegularBalance (state m) \<and>
         BottomFishUsedThisWeek (state m')))"
proof (intro conjI impI)
  assume "ResetFlags \<notin> snd ` set cs"
  then show "length (filter triggered (snd (run_calls grow cs m))) \<le> 1"
    by (rule run_calls_at_most_one)
next
  assume unused: "\<not> BottomFishUsedThisWeek (state m)"
  obtain m' amount t where r: "CalculateBottomFishInvestment now totalScore m = (m', amount, t)"
    by (cases "CalculateBottomFishInvestment now totalScore m")
  from bottom_fish_unused [OF unused r] show
    "case CalculateBottomFishInvestment now totalScore m of (m', amount, t) \<Rightarrow>
         t \<and>
         amount =
           min (WeeklyBaseN (state m) *
                  (if totalScore > 1.0 then 1.5 else if totalScore > 0 then 1.0
                   else if totalScore < -0.5 then 0.5 else 0.75))
               (ReserveBalance (state m)) \<and>
         amount \<le> ReserveBalance (state m) \<and>
         ReserveBalance (state m') = ReserveBalance (state m) - amount \<and>
         RegularBalance (state m') = RegularBalance (state m) \<and>
         BottomFishUsedThisWeek (state m')"
    unfolding r by simp
qed

text \<open>
  The example week has no reset; of its three bottom-fish calls the first is the
  one that triggers, and a reset followed by another call triggers again. A call
  on an empty reserve triggers too, with an amount of 0.
\<close>

lemma one_week_replies:
  "map triggered (snd (run_calls doubling one_week seeded_manager)) =
     [True, False, False, False, False, False, False]"
  by code_simp

lemma reset_allows_next_trigger:
  "map triggered
     (snd (run_calls doubling (one_week @ [(8, ResetFlags), (9, BottomFish 0)]) seeded_manager)) =
     [True, False, False, False, False, False, False, False, True]"
  by code_simp

theorem bottom_fish_once_between_resets_witness:
  "ResetFlags \<notin> snd ` set one_week \<and>
   length (filter triggered (snd (run_calls doubling one_week seeded_manager))) \<le> 1 \<and>
   \<not> BottomFishUsedThisWeek (state seeded_manager) \<and>
   snd (CalculateBottomFishInvestment 1 0.5 seeded_manager) = (700000 / 433, True) \<and>
   ReserveBalance (state (fst (CalculateBottomFishInvestment 1 0.5 seeded_manager))) =
     3000 - 700000 / 433 \<and>
   BottomFishUsedThisWeek (state (fst (CalculateBottomFishInvestment 1 0.5 seeded_manager))) \<and>
   \<not> BottomFishUsedThisWeek (state drained_manager) \<and>
   snd (CalculateBottomFishInvestment 1 0.5 drained_manager) = (0, True)"
proof -
  have a: "ResetFlags \<notin> snd ` set one_week"
    by (simp add: one_week_def)
  have b: "\<not> BottomFishUsedThisWeek (state seeded_manager)"
    by (simp add: seeded_manager_fields)
  have c: "\<not> BottomFishUsedThisWeek (state drained_manager)"
    "ReserveBalance (state drained_manager) = 0"
    "WeeklyBaseN (state drained_manager) = 700000 / 433"
    by (simp_all add: drained_manager_def seeded_manager_def seeded_state_def)
  from bottom_fish_once_between_resets [where cs = one_week and grow = doubling and m = seeded_manager
      and now = 1 and totalScore = "0.5"] a b
  have "length (filter triggered (snd (run_calls doubling one_week seeded_manager))) \<le> 1 \<and>
   snd (CalculateBottomFishInvestment 1 0.5 seeded_manager) = (700000 / 433, True) \<and>
   ReserveBalance (state (fst (CalculateBottomFishInvestment 1 0.5 seeded_manager))) =
     3000 - 700000 / 433 \<and>
   BottomFishUsedThisWeek (state (fst (CalculateBottomFishInvestment 1 0.5 seeded_manager)))"
    by (simp add: seeded_manager_fields split: prod.splits)
  moreover from bottom_fish_once_between_resets [where cs = "[]" and grow = doubling
      and m = drained_manager and now = 1 and totalScore = "0.5"] c
  have "snd (CalculateBottomFishInvestment 1 0.5 drained_manager) = (0, True)"
    by (simp split: prod.splits)
  ultimately show ?thesis
    using a b c(1) by simp
qed

subsection \<open>Quarterly rebalance\<close>



subsection \<open>Slices in the store\<close>

lemma last12_short: "length xs \<le> 12 \<Longrightarrow> last12 xs = xs"
  by (simp add: last12_def)

lemma length_last12: "length (last12 xs) = min 12 (length xs)"
  by (simp add: last12_def)

lemma last12_last12_append: "last12 (last12 w @ ys) = last12 (w @ ys)"
proof (cases "length w \<le> 12")
  case True
  then show ?thesis by (simp add: last12_short)
next
  case False
  then have "length w - 12 + length ys = length w + length ys - 12"
    and "length w + length ys - 12 - length w = length ys - 12"
    and "length (drop (length w - 12) w) = 12"
    by simp_all
  then show ?thesis
    by (simp add: last12_def add.commute)
qed

lemma length_elems: "wf_slice h s \<Longrightarrow> length (elems h s) = s_len s"
  by (auto simp: wf_slice_def elems_def)

lemma take_drop_update_beyond:
  "k + n \<le> j \<Longrightarrow> take n (drop k (xs[j := v])) = take n (drop k xs)"
  by (simp add: drop_update_swap)

lemma take_drop_update_end:
  "k + n < length xs \<Longrightarrow> take (Suc n) (drop k (xs[k + n := v])) = take n (drop k xs) @ [v]"
  by (simp add: drop_update_swap take_Suc_conv_app_nth)

lemma go_append_elems:
  assumes "wf_slice h s" and "go_append grow h s v = (h', s')"
  shows "elems h' s' = elems h s @ [v]" and "wf_slice h' s'" and "s_len s' = s_len s + 1"
    and "allocated h \<le> allocated h'"
proof -
  show "elems h' s' = elems h s @ [v]"
  proof (cases "s_len s < s_cap s")
    case True
    with assms have "s_off s + s_len s < length (arrays h (s_array s))"
      by (simp add: wf_slice_def)
    from take_drop_update_end [OF this] True assms(2) show ?thesis
      by (auto simp: go_append_def elems_def)
  next
    case False
    with assms length_elems [OF assms(1)] show ?thesis
      by (auto simp: go_append_def elems_def)
  qed
  show "wf_slice h' s'"
    using assms length_elems [OF assms(1)]
    by (auto simp: go_append_def wf_slice_def split: if_splits)
  show "s_len s' = s_len s + 1"
    using assms(2) by (auto simp: go_append_def split: if_splits)
  show "allocated h \<le> allocated h'"
    using assms(2) by (auto simp: go_append_def split: if_splits)
qed

lemma go_append_frame:
  assumes "wf_slice h s" and "go_append grow h s v = (h', s')"
    and "s_array sn < allocated h" and "behind sn s"
  shows "elems h' sn = elems h sn" and "behind sn s'"
proof -
  show "elems h' sn = elems h sn"
  proof (cases "s_len s < s_cap s")
    case True
    show ?thesis
    proof (cases "s_array sn = s_array s")
      case same: True
      with assms(4) have "s_off sn + s_len sn \<le> s_off s + s_len s"
        by (simp add: behind_def)
      from take_drop_update_beyond [OF this] True same assms(2) show ?thesis
        by (auto simp: go_append_def elems_def)
    next
      case False
      with True assms(2) show ?thesis
        by (auto simp: go_append_def elems_def)
    qed
  next
    case False
    with assms(2,3) show ?thesis
      by (auto simp: go_append_def elems_def)
  qed
  show "behind sn s'"
    using assms(2,3,4) by (auto simp: go_append_def behind_def split: if_splits)
qed

lemma reslice_from_elems:
  assumes "wf_slice h s" and "n \<le> s_len s"
  shows "elems h (reslice_from s n) = drop n (elems h s)" and "wf_slice h (reslice_from s n)"
  using assms
  by (auto simp: reslice_from_def elems_def wf_slice_def drop_take add.commute)

lemma reslice_from_behind:
  "n \<le> s_len s \<Longrightarrow> behind sn s \<Longrightarrow> behind sn (reslice_from s n)"
  by (auto simp: reslice_from_def behind_def)

subsection \<open>What each method does to the window of recent scores\<close>

lemma weekly_scores:
  assumes "CalculateWeeklyInvestment grow now signal m = (m', r)"
    and "go_append grow (heap m) (RecentScores (state m)) (TotalScore signal) = (h', s')"
  shows "heap m' = h'"
    and "RecentScores (state m') =
           (if s_len s' > 12 then reslice_from s' (s_len s' - 12) else s')"
  using assms
  by (auto simp: CalculateWeeklyInvestment_def Let_def save_def split: prod.splits if_splits)

lemma bottom_fish_scores:
  "CalculateBottomFishInvestment now totalScore m = (m', r) \<Longrightarrow>
     heap m' = heap m \<and> RecentScores (state m') = RecentScores (state m)"
  by (auto simp: CalculateBottomFishInvestment_def Let_def save_def split: if_splits)

lemma monthly_scores:
  "heap (MonthlyReplenish now m) = heap m \<and>
   RecentScores (state (MonthlyReplenish now m)) = RecentScores (state m)"
  by (simp add: MonthlyReplenish_def Let_def save_def)

lemma quarterly_scores:
  "QuarterlyRebalance now m = (m', msg) \<Longrightarrow>
     heap m' = heap m \<and> RecentScores (state m') = RecentScores (state m)"
  by (auto simp: QuarterlyRebalance_def Let_def save_def split: if_splits)

lemma reset_scores:
  "heap (ResetWeeklyFlags now m) = heap m \<and>
   RecentScores (state (ResetWeeklyFlags now m)) = RecentScores (state m)"
  by (simp add: ResetWeeklyFlags_def save_def)

lemma weekly_window:
  assumes "wf_manager m" and "CalculateWeeklyInvestment grow now signal m = (m', r)"
  shows "wf_manager m'"
    and "window m' =
      last12 (window m @ [TotalScore signal])"
proof -
  obtain h' s' where a:
    "go_append grow (heap m) (RecentScores (state m)) (TotalScore signal) = (h', s')"
    by (cases "go_append grow (heap m) (RecentScores (state m)) (TotalScore signal)")
  from assms(1) have wf: "wf_slice (heap m) (RecentScores (state m))"
    by (simp add: wf_manager_def)
  note ap = go_append_elems [OF wf a]
  note w = weekly_scores [OF assms(2) a]
  have len: "length (window m @ [TotalScore signal]) = s_len s'"
    using ap(3) length_elems [OF wf] by (simp add: window_def)
  show "wf_manager m'"
    using w ap(2) reslice_from_elems(2) [OF ap(2), of "s_len s' - 12"]
    by (simp add: wf_manager_def)
  show "window m' =
      last12 (window m @ [TotalScore signal])"
  proof (cases "s_len s' > 12")
    case True
    with w reslice_from_elems(1) [OF ap(2), of "s_len s' - 12"] ap(1) len show ?thesis
      by (simp add: window_def last12_def)
  next
    case False
    with w ap(1) len show ?thesis
      by (simp add: window_def last12_def)
  qed
qed

lemma weekly_frame:
  assumes "wf_manager m" and "CalculateWeeklyInvestment grow now signal m = (m', r)"
    and "s_array sn < allocated (heap m)" and "behind sn (RecentScores (state m))"
  shows "elems (heap m') sn = elems (heap m) sn"
    and "behind sn (RecentScores (state m'))"
    and "s_array sn < allocated (heap m')"
proof -
  obtain h' s' where a:
    "go_append grow (heap m) (RecentScores (state m)) (TotalScore signal) = (h', s')"
    by (cases "go_append grow (heap m) (RecentScores (state m)) (TotalScore signal)")
  from assms(1) have wf: "wf_slice (heap m) (RecentScores (state m))"
    by (simp add: wf_manager_def)
  note ap = go_append_elems [OF wf a]
  note fr = go_append_frame [OF wf a assms(3,4)]
  note w = weekly_scores [OF assms(2) a]
  show "elems (heap m') sn = elems (heap m) sn"
    using w(1) fr(1) by simp
  show "behind sn (RecentScores (state m'))"
    using w(2) fr(2) reslice_from_behind [OF _ fr(2), of "s_len s' - 12"] by simp
  show "s_array sn < allocated (heap m')"
    using w(1) ap(4) assms(3) by simp
qed

lemma do_call_store:
  assumes "wf_manager m" and "do_call grow (now, c) m = (m', r)"
    and "s_array sn < allocated (heap m)" and "behind sn (RecentScores (state m))"
  shows "wf_manager m' \<and> s_array sn < allocated (heap m') \<and>
         behind sn (RecentScores (state m')) \<and> elems (heap m') sn = elems (heap m) sn"
proof (cases c)
  case (Weekly signal)
  with assms(2) obtain a b where "CalculateWeeklyInvestment grow now signal m = (m', a, b)"
    by (auto split: prod.splits)
  from weekly_window(1) [OF assms(1) this] weekly_frame [OF assms(1) this assms(3,4)]
  show ?thesis by simp
next
  case (BottomFish totalScore)
  with assms(2) obtain a b where "CalculateBottomFishInvestment now totalScore m = (m', a, b)"
    by (auto split: prod.splits)
  from bottom_fish_scores [OF this] assms(1,3,4) show ?thesis
    by (simp add: wf_manager_def)
next
  case Monthly
  with assms monthly_scores [of now m] show ?thesis
    by (auto simp: wf_manager_def)
next
  case Quarterly
  with assms(2) obtain msg where "QuarterlyRebalance now m = (m', msg)"
    by (auto split: prod.splits)
  from quarterly_scores [OF this] assms(1,3,4) show ?thesis
    by (simp add: wf_manager_def)
next
  case ResetFlags
  with assms reset_scores [of now m] show ?thesis
    by (auto simp: wf_manager_def)
next
  case Get
  with assms show ?thesis by auto
qed

lemma run_calls_store:
  assumes "wf_manager m" and "s_array sn < allocated (heap m)"
    and "behind sn (RecentScores (state m))"
  shows "wf_manager (fst (run_calls grow cs m)) \<and>
         elems (heap (fst (run_calls grow cs m))) sn = elems (heap m) sn"
  using assms
proof (induction cs arbitrary: m)
  case Nil
  then show ?case by simp
next
  case (Cons c cs)
  obtain now k where c: "c = (now, k)" by (cases c)
  obtain m' r where step: "do_call grow (now, k) m = (m', r)" by (cases "do_call grow (now, k) m")
  from do_call_store [OF Cons.prems(1) step Cons.prems(2,3)]
  have "wf_manager m'" "s_array sn < allocated (heap m')" "behind sn (RecentScores (state m'))"
    and same: "elems (heap m') sn = elems (heap m) sn"
    by simp_all
  from Cons.IH [OF this(1,2,3)] same c step show ?case
    by (simp add: run_calls_Cons del: run_calls.simps)
qed

lemma fst_run_calls_Cons:
  "fst (run_calls grow (c # cs) m) = fst (run_calls grow cs (fst (do_call grow c m)))"
  by (simp split: prod.splits)

lemma run_calls_append:
  "fst (run_calls grow (cs @ ds) m) = fst (run_calls grow ds (fst (run_calls grow cs m)))"
proof (induction cs arbitrary: m)
  case Nil
  then show ?case by simp
next
  case (Cons c cs)
  have "fst (run_calls grow ((c # cs) @ ds) m) =
      fst (run_calls grow (cs @ ds) (fst (do_call grow c m)))"
    by (simp only: append_Cons fst_run_calls_Cons)
  with Cons.IH show ?case
    by (simp only: fst_run_calls_Cons)
qed

lemma do_call_window:
  assumes "wf_manager m" and "do_call grow (now, c) m = (m', r)"
  shows "wf_manager m' \<and>
         window m' =
           (case c of
              Weekly signal \<Rightarrow>
                last12 (window m @ [TotalScore signal])
            | _ \<Rightarrow> window m)"
proof (cases c)
  case (Weekly signal)
  with assms(2) obtain a b where "CalculateWeeklyInvestment grow now signal m = (m', a, b)"
    by (auto split: prod.splits)
  from weekly_window [OF assms(1) this] Weekly show ?thesis by simp
next
  case (BottomFish totalScore)
  with assms(2) obtain a b where "CalculateBottomFishInvestment now totalScore m = (m', a, b)"
    by (auto split: prod.splits)
  from bottom_fish_scores [OF this] assms(1) BottomFish show ?thesis
    by (simp add: wf_manager_def window_def)
next
  case Monthly
  with assms monthly_scores [of now m] show ?thesis
    by (auto simp: wf_manager_def window_def)
next
  case Quarterly
  with assms(2) obtain msg where "QuarterlyRebalance now m = (m', msg)"
    by (auto split: prod.splits)
  from quarterly_scores [OF this] assms(1) Quarterly show ?thesis
    by (simp add: wf_manager_def window_def)
next
  case ResetFlags
  with assms reset_scores [of now m] show ?thesis
    by (auto simp: wf_manager_def window_def)
next
  case Get
  with assms show ?thesis by auto
qed

lemma run_calls_wf:
  assumes "wf_manager m"
  shows "wf_manager (fst (run_calls grow cs m))"
proof -
  have "behind (RecentScores (state m)) (RecentScores (state m))"
    by (simp add: behind_def)
  with assms run_calls_store [of m "RecentScores (state m)" grow cs] show ?thesis
    by (simp add: wf_manager_def wf_slice_def)
qed

lemma run_calls_window_bound:
  assumes "wf_manager m" and "length (window m) \<le> 12"
  shows "length (window (fst (run_calls grow cs m))) \<le> 12"
  using assms
proof (induction cs arbitrary: m)
  case Nil
  then show ?case by simp
next
  case (Cons c cs)
  obtain now k where c: "c = (now, k)" by (cases c)
  obtain m' r where step: "do_call grow (now, k) m = (m', r)" by (cases "do_call grow (now, k) m")
  from do_call_window [OF Cons.prems(1) step] Cons.prems(2)
  have "wf_manager m'" and "length (window m') \<le> 12"
    by (auto simp: length_last12 split: call.splits)
  from Cons.IH [OF this] c step show ?case
    by (simp add: run_calls_Cons del: run_calls.simps)
qed

lemma weekly_scores_Cons: "weekly_scores (c # cs) = weekly_scores [c] @ weekly_scores cs"
  by (cases "c # cs" rule: weekly_scores.cases) simp_all

lemma do_call_window_scores:
  assumes "wf_manager m" and "do_call grow c m = (m', r)"
  shows "window m' =
    (if weekly_scores [c] = [] then window m else last12 (window m @ weekly_scores [c]))"
proof -
  obtain now k where c: "c = (now, k)" by (cases c)
  from do_call_window [OF assms(1) assms(2) [unfolded c]] c show ?thesis
    by (cases k) simp_all
qed

lemma run_calls_window_general:
  assumes "wf_manager m"
  shows "window (fst (run_calls grow cs m)) =
    (if weekly_scores cs = [] then window m else last12 (window m @ weekly_scores cs))"
  using assms
proof (induction cs arbitrary: m)
  case Nil
  then show ?case by simp
next
  case (Cons c cs)
  obtain m' r where step: "do_call grow c m = (m', r)" by (cases "do_call grow c m")
  obtain now k where c: "c = (now, k)" by (cases c)
  from do_call_window [OF Cons.prems step [unfolded c]] have wf': "wf_manager m'" by simp
  note w = do_call_window_scores [OF Cons.prems step]
  have run: "window (fst (run_calls grow (c # cs) m)) =
      (if weekly_scores cs = [] then window m' else last12 (window m' @ weekly_scores cs))"
    using Cons.IH [OF wf'] step by (simp add: run_calls_Cons del: run_calls.simps)
  show ?case
  proof (cases "weekly_scores [c] = []")
    case True
    with w run show ?thesis
      by (simp add: weekly_scores_Cons [of c cs])
  next
    case False
    with w have "window m' = last12 (window m @ weekly_scores [c])"
      by simp
    with run False show ?thesis
      by (simp add: weekly_scores_Cons [of c cs] last12_last12_append)
  qed
qed

lemma run_calls_window:
  assumes "wf_manager m" and "length (window m) \<le> 12"
  shows "window (fst (run_calls grow cs m)) = last12 (window m @ weekly_scores cs)"
  using run_calls_window_general [OF assms(1), of grow cs] assms(2)
  by (simp add: last12_short)

lemma wf_seeded_manager: "wf_manager seeded_manager"
  by (simp add: wf_manager_def wf_slice_def seeded_manager_def seeded_state_def nil_slice_def
      empty_store_def)

lemma window_seeded_manager: "window seeded_manager = []"
  by (simp add: window_def elems_def seeded_manager_def seeded_state_def nil_slice_def)

lemma weekly_scores_fifteen_weeks:
  "weekly_scores fifteen_weeks =
     [0.1, 0.2, 0.3, 0.4, 0.5, 0.6, 0.7, 0.8, 0.9, 1.0, 1.1, 1.2, 1.3, 1.4, 1.5]"
  by (simp add: fifteen_weeks_def Tier_signal_of)

text \<open>
  Claim C9. Every operation of the fund state machine keeps the window of recent
  scores at length 12 or less. \<open>CalculateWeeklyInvestment\<close> appends the signal's
  total score and keeps the 12 most recent scores, dropping the oldest first; no
  other operation changes the window. Over a sequence of calls from a window of
  at most 12 scores, the window is the 12 most recent of the old window followed
  by the total scores of the weekly investments, in order. The hypothesis, a
  well-formed slice, holds for the nil slice of a new state and is kept by every
  sequence of calls.
\<close>

theorem recent_scores_window:
  assumes "wf_manager m"
  shows
    "window (fst (CalculateWeeklyInvestment grow now signal m)) =
       last12 (window m @ [TotalScore signal]) \<and>
     length (window (fst (CalculateWeeklyInvestment grow now signal m))) =
       min 12 (length (window m) + 1) \<and>
     window (fst (CalculateBottomFishInvestment now totalScore m)) = window m \<and>
     window (MonthlyReplenish now m) = window m \<and>
     window (fst (QuarterlyRebalance now m)) = window m \<and>
     window (ResetWeeklyFlags now m) = window m \<and>
     wf_manager (fst (run_calls grow cs m)) \<and>
     (length (window m) \<le> 12 \<longrightarrow>
        window (fst (run_calls grow cs m)) = last12 (window m @ weekly_scores cs) \<and>
        length (window (fst (run_calls grow cs m))) \<le> 12)"
proof (intro conjI impI)
  show "wf_manager (fst (run_calls grow cs m))"
    using assms by (rule run_calls_wf)
  have w: "window (fst (CalculateWeeklyInvestment grow now signal m)) =
       last12 (window m @ [TotalScore signal])"
    using weekly_window(2) [OF assms prod.collapse [symmetric], of grow now signal] .
  then show "window (fst (CalculateWeeklyInvestment grow now signal m)) =
       last12 (window m @ [TotalScore signal])" .
  from w show "length (window (fst (CalculateWeeklyInvestment grow now signal m))) =
       min 12 (length (window m) + 1)"
    by (simp add: length_last12)
  show "window (fst (CalculateBottomFishInvestment now totalScore m)) = window m"
    using bottom_fish_scores [OF prod.collapse [symmetric], of now totalScore m]
    by (simp add: window_def)
  show "window (MonthlyReplenish now m) = window m"
    by (simp add: window_def monthly_scores)
  show "window (fst (QuarterlyRebalance now m)) = window m"
    using quarterly_scores [OF prod.collapse [symmetric], of now m]
    by (simp add: window_def)
  show "window (ResetWeeklyFlags now m) = window m"
    by (simp add: window_def reset_scores)
  show "window (fst (run_calls grow cs m)) = last12 (window m @ weekly_scores cs)"
    if "length (window m) \<le> 12"
    using assms that by (rule run_calls_window)
  show "length (window (fst (run_calls grow cs m))) \<le> 12" if "length (window m) \<le> 12"
    using assms that by (rule run_calls_window_bound)
qed

text \<open>
  From the seeded manager: one weekly investment, one bottom-fish call, and
  fifteen weekly investments, after which the three oldest scores are gone.
\<close>

theorem recent_scores_window_witness:
  "wf_manager seeded_manager \<and>
   window (fst (CalculateWeeklyInvestment doubling 1 (signal_of 1.6) seeded_manager)) = [1.6] \<and>
   window (fst (CalculateBottomFishInvestment 1 1.6 seeded_manager)) = [] \<and>
   length (window seeded_manager) \<le> 12 \<and>
   window (fst (run_calls doubling fifteen_weeks seeded_manager)) =
     [0.4, 0.5, 0.6, 0.7, 0.8, 0.9, 1.0, 1.1, 1.2, 1.3, 1.4, 1.5]"
  using recent_scores_window [OF wf_seeded_manager, where grow = doubling and now = 1
      and signal = "signal_of 1.6" and totalScore = "1.6" and cs = fifteen_weeks]
    wf_seeded_manager
  by (simp add: window_seeded_manager Tier_signal_of weekly_scores_fifteen_weeks last12_def)

subsection \<open>Snapshots\<close>

text \<open>
  Claim C10. A \<open>FundState\<close> returned by \<open>GetState\<close> is a snapshot: no operation of
  the fund state machine called afterwards changes what the caller reads from
  it, the elements of its \<open>RecentScores\<close> included. The struct is a copy, so its
  scalar fields are the caller's own. Its \<open>RecentScores\<close> is a copy of the slice
  header and still points into the manager's array; the elements it shows stay
  the same because the manager only writes behind the last element of its own
  slice, which never lies before the end of an earlier snapshot, or into a new
  array. The snapshot may be taken at any point of a sequence of calls that
  starts from a well-formed manager.
\<close>

theorem GetState_is_a_snapshot:
  assumes "wf_manager m"
    and "snapshot = GetState (fst (run_calls grow before m))"
  shows "observed (heap (fst (run_calls grow (before @ after) m))) snapshot =
           observed (heap (fst (run_calls grow before m))) snapshot \<and>
         elems (heap (fst (run_calls grow (before @ after) m))) (RecentScores snapshot) =
           elems (heap (fst (run_calls grow before m))) (RecentScores snapshot)"
proof -
  let ?m1 = "fst (run_calls grow before m)"
  have "behind (RecentScores (state m)) (RecentScores (state m))"
    by (simp add: behind_def)
  with assms(1) have wf1: "wf_manager ?m1"
    using run_calls_store [of m "RecentScores (state m)" grow before]
    by (simp add: wf_manager_def wf_slice_def)
  then have "s_array (RecentScores snapshot) < allocated (heap ?m1)"
    and "behind (RecentScores snapshot) (RecentScores (state ?m1))"
    using assms(2) by (simp_all add: wf_manager_def wf_slice_def GetState_def behind_def)
  from run_calls_store [OF wf1 this, of grow after] show ?thesis
    by (simp add: run_calls_append observed_def)
qed

text \<open>
  The snapshot after the first week shows the score 0.1 in array 1. The second
  week's append writes 0.2 into the same array, behind the snapshot's only
  element, and the snapshot still shows 0.1.
\<close>

lemma snapshot_after_first_week:
  "RecentScores (GetState (fst (run_calls spare_one first_week seeded_manager))) =
     \<lparr>s_array = 1, s_off = 0, s_len = 1, s_cap = 2\<rparr> \<and>
   arrays (heap (fst (run_calls spare_one first_week seeded_manager))) 1 = [0.1, 0]"
  by code_simp

lemma array_after_second_week:
  "RecentScores (state (fst (run_calls spare_one (first_week @ second_week) seeded_manager))) =
     \<lparr>s_array = 1, s_off = 0, s_len = 2, s_cap = 2\<rparr> \<and>
   arrays (heap (fst (run_calls spare_one (first_week @ second_week) seeded_manager))) 1 =
     [0.1, 0.2]"
  by code_simp

theorem GetState_is_a_snapshot_witness:
  "wf_manager seeded_manager \<and>
   elems (heap (fst (run_calls spare_one (first_week @ second_week) seeded_manager)))
     (RecentScores (GetState (fst (run_calls spare_one first_week seeded_manager)))) = [0.1] \<and>
   window (fst (run_calls spare_one (first_week @ second_week) seeded_manager)) = [0.1, 0.2]"
proof -
  have "elems (heap (fst (run_calls spare_one first_week seeded_manager)))
     (RecentScores (GetState (fst (run_calls spare_one first_week seeded_manager)))) = [0.1]"
    using snapshot_after_first_week by (simp add: elems_def)
  moreover have "window (fst (run_calls spare_one (first_week @ second_week) seeded_manager)) =
      [0.1, 0.2]"
    using array_after_second_week by (simp add: window_def elems_def)
  ultimately show ?thesis
    using GetState_is_a_snapshot [OF wf_seeded_manager refl, of spare_one first_week second_week]
      wf_seeded_manager
    by simp
qed

end
